theory Spec2Isabelle
  imports Complex_Main
begin

section \<open>JavaScript values\<close>

text \<open>
  The query-translation engine (the module exporting \<open>performListQuery\<close>,
  \<open>performAggregationQuery\<close> and \<open>performHistoryQuery\<close>) handles untyped JavaScript
  values: raw filter values, normalized values, range objects, result rows. They are
  modelled by \<open>jsval\<close>: \<open>undefined\<close>, \<open>null\<close>, booleans, numbers, \<open>NaN\<close>, strings, arrays
  and plain objects. A number is read as the rational it denotes; a plain object is the
  list of its own properties in insertion order.
\<close>

datatype jsval =
    JUndefined
  | JNull
  | JBool bool
  | JNum rat
  | JNaN
  | JStr string
  | JArr "jsval list"
  | JObj "(string \<times> jsval) list"

text \<open>Truthiness, as tested by \<open>if (x)\<close> and \<open>!x\<close>.\<close>

fun truthy :: "jsval \<Rightarrow> bool" where
  "truthy JUndefined = False"
| "truthy JNull = False"
| "truthy (JBool b) = b"
| "truthy (JNum q) = (q \<noteq> 0)"
| "truthy JNaN = False"
| "truthy (JStr s) = (s \<noteq> [])"
| "truthy (JArr xs) = True"
| "truthy (JObj kvs) = True"

text \<open>lodash's \<open>_.isUndefined\<close>, \<open>_.isPlainObject\<close>, \<open>_.isString\<close> and \<open>_.isNumber\<close>.\<close>

definition isUndefined :: "jsval \<Rightarrow> bool" where
  "isUndefined v = (v = JUndefined)"

fun isPlainObject :: "jsval \<Rightarrow> bool" where
  "isPlainObject (JObj kvs) = True"
| "isPlainObject v = False"

fun isString :: "jsval \<Rightarrow> bool" where
  "isString (JStr s) = True"
| "isString v = False"

fun isNumber :: "jsval \<Rightarrow> bool" where
  "isNumber (JNum q) = True"
| "isNumber JNaN = True"
| "isNumber v = False"

text \<open>
  Reading, writing and deleting an own property of a plain object. A missing property
  reads as \<open>undefined\<close>; an assignment keeps the position of an existing key and appends a
  new one (it is used on filter mappings too).
\<close>

fun obj_get :: "(string \<times> jsval) list \<Rightarrow> string \<Rightarrow> jsval" where
  "obj_get [] k = JUndefined"
| "obj_get ((k', v) # kvs) k = (if k' = k then v else obj_get kvs k)"

fun obj_set :: "(string \<times> 'a) list \<Rightarrow> string \<Rightarrow> 'a \<Rightarrow> (string \<times> 'a) list" where
  "obj_set [] k v = [(k, v)]"
| "obj_set ((k', v') # kvs) k v =
     (if k' = k then (k, v) # kvs else (k', v') # obj_set kvs k v)"

definition obj_delete :: "(string \<times> jsval) list \<Rightarrow> string \<Rightarrow> (string \<times> jsval) list" where
  "obj_delete kvs k = filter (\<lambda>kv. fst kv \<noteq> k) kvs"

text \<open>
  \<open>v.name\<close> for one of the names \<open>lt\<close>, \<open>lte\<close>, \<open>gt\<close>, \<open>gte\<close>, which no primitive wrapper and
  no array defines: an own property of a plain object, \<open>undefined\<close> on every other value
  but \<open>null\<close> and \<open>undefined\<close>, where the read throws a TypeError (\<open>None\<close>).
\<close>

fun read_prop :: "jsval \<Rightarrow> string \<Rightarrow> jsval option" where
  "read_prop JUndefined k = None"
| "read_prop JNull k = None"
| "read_prop (JObj kvs) k = Some (obj_get kvs k)"
| "read_prop v k = Some JUndefined"

subsection \<open>The relational operator\<close>

text \<open>
  \<open>a < b\<close> on two strings compares them code unit by code unit (a string is read as the
  list of its code units, each below 256, as in a date or a numeral); on any other pair of
  primitives it converts both with ToNumber and is false as soon as one of them is \<open>NaN\<close>.
  ToNumber of a string is modelled on the empty (or blank) string, which is \<open>0\<close>, and on an
  optionally signed run of decimal digits; a string holding a fraction, an exponent or a
  hexadecimal literal is read as \<open>NaN\<close>. An array or an object operand would be compared
  through its primitive form, which the model does not build: it is read as \<open>NaN\<close> too.
  So \<open>js_lt\<close> is the operator of the language on the pairs singled out by
  \<open>comparableScalars\<close> below, and the statements that depend on a comparison are made for
  such pairs.
\<close>

fun str_lt :: "string \<Rightarrow> string \<Rightarrow> bool" where
  "str_lt [] [] = False"
| "str_lt [] (y # ys) = True"
| "str_lt (x # xs) [] = False"
| "str_lt (x # xs) (y # ys) =
     (if (of_char x :: nat) < of_char y then True
      else if (of_char y :: nat) < of_char x then False
      else str_lt xs ys)"

definition digit_val :: "char \<Rightarrow> nat option" where
  "digit_val c =
     (let n = (of_char c :: nat) in if 48 \<le> n \<and> n \<le> 57 then Some (n - 48) else None)"

fun digits_val :: "nat \<Rightarrow> string \<Rightarrow> nat option" where
  "digits_val acc [] = Some acc"
| "digits_val acc (c # cs) =
     (case digit_val c of None \<Rightarrow> None | Some d \<Rightarrow> digits_val (10 * acc + d) cs)"

definition is_blank :: "char \<Rightarrow> bool" where
  "is_blank c = ((of_char c :: nat) \<in> {9, 10, 11, 12, 13, 32})"

definition trim :: "string \<Rightarrow> string" where
  "trim s = rev (dropWhile is_blank (rev (dropWhile is_blank s)))"

definition str_to_number :: "string \<Rightarrow> rat option" where
  "str_to_number s =
     (case trim s of
        [] \<Rightarrow> Some 0
      | c # cs \<Rightarrow>
          if c = CHR ''-'' \<and> cs \<noteq> [] then map_option (\<lambda>n. - of_nat n) (digits_val 0 cs)
          else if c = CHR ''+'' \<and> cs \<noteq> [] then map_option of_nat (digits_val 0 cs)
          else map_option of_nat (digits_val 0 (c # cs)))"

fun to_number :: "jsval \<Rightarrow> rat option" where
  "to_number JUndefined = None"
| "to_number JNull = Some 0"
| "to_number (JBool b) = Some (if b then 1 else 0)"
| "to_number (JNum q) = Some q"
| "to_number JNaN = None"
| "to_number (JStr s) = str_to_number s"
| "to_number (JArr xs) = None"
| "to_number (JObj kvs) = None"

definition js_lt :: "jsval \<Rightarrow> jsval \<Rightarrow> bool" where
  "js_lt a b =
     (case (a, b) of
        (JStr s, JStr t) \<Rightarrow> str_lt s t
      | _ \<Rightarrow>
          (case (to_number a, to_number b) of
             (Some x, Some y) \<Rightarrow> x < y
           | _ \<Rightarrow> False))"

text \<open>
  The operand pairs on which \<open>js_lt\<close> is exact: two primitives that are both strings
  (compared code unit by code unit), or neither of them a string (compared as numbers),
  or one of them \<open>undefined\<close> or \<open>NaN\<close> (the comparison is false then, whatever the other
  primitive is).
\<close>

fun primitive :: "jsval \<Rightarrow> bool" where
  "primitive (JArr xs) = False"
| "primitive (JObj kvs) = False"
| "primitive v = True"

definition comparableScalars :: "jsval \<Rightarrow> jsval \<Rightarrow> bool" where
  "comparableScalars a b =
     (primitive a \<and> primitive b
      \<and> (a = JUndefined \<or> a = JNaN \<or> b = JUndefined \<or> b = JNaN \<or> isString a = isString b))"

section \<open>Errors and the query builder\<close>

text \<open>
  What the engine throws. A message built by a template literal is kept as its pieces,
  the literal text and the interpolated values. \<open>HttpError status msg\<close> is
  \<open>createError(status, msg)\<close>, \<open>Error msg\<close> is \<open>new Error(msg)\<close>, \<open>ValidationError\<close> is the
  error of a failed Joi validation with the prefix the engine puts before its message,
  \<open>TypeError\<close> is the language's own error on \<open>undefined.name\<close> and \<open>null.name\<close>, and
  \<open>Thrown v\<close> is a value thrown by a collaborator: a custom transform or strategy
  function of the caller, \<open>parseArrayValues\<close>, the storage.
\<close>

datatype msg = Lit string | Val jsval

datatype error =
    HttpError nat "msg list"
  | Error "msg list"
  | ValidationError "msg list"
  | TypeError "msg list"
  | Thrown jsval

text \<open>
  The Knex query builder is used through its chaining methods only, so it is modelled by
  the sequence of the calls made on it. \<open>knex.raw(text, bindings)\<close> is \<open>Raw\<close>.
\<close>

datatype sql = Ident string | Raw string "jsval list"

datatype qb_call =
    QWhere jsval jsval
  | QWhereOp jsval string jsval
  | QWhereIn jsval jsval
  | QWhereRaw string "jsval list"
  | QWhereNotNull string
  | QSelect "sql list"
  | QFrom sql
  | QCount
  | QAvg string sql
  | QSum string sql
  | QMin string sql
  | QMax string sql
  | QGroupBy string
  | QOrderBy jsval jsval
  | QOffset int
  | QLimit int
  | QWith string "qb_call list"

section \<open>Filter specifications\<close>

text \<open>
  A filter specification, as \<open>filtersSchema\<close> describes it. \<open>transformValue\<close> and \<open>query\<close>
  are a string tag or a function of the caller; \<open>TOther\<close> and \<open>SOther\<close> stand for any
  other value, which the code tests for. The field \<open>value\<close> of the source is
  \<open>rawValue\<close> here. A custom transform returns the normalized value or throws; a custom
  strategy receives the builder, the normalized value and all normalized values, and
  leaves the builder as it made it, throwing or not. A filter mapping is the list of
  its entries in the order of \<open>Object.keys\<close>, which for keys that are names is the order
  of insertion.
\<close>

datatype transform =
    TUndefined
  | TString string
  | TFunction "jsval \<Rightarrow> jsval + jsval"
  | TOther

datatype strategy =
    SUndefined
  | SString string
  | SFunction "qb_call list \<Rightarrow> jsval \<Rightarrow> (string \<times> jsval) list \<Rightarrow> jsval option \<times> qb_call list"
  | SOther

record filterSpec =
  dbField :: jsval
  rawValue :: jsval
  minValue :: jsval
  defaultValue :: jsval
  transformValue :: transform
  query :: strategy

type_synonym filters = "(string \<times> filterSpec) list"

text \<open>
  \<open>getTransformedValues\<close>. \<open>parseArrayValues\<close> belongs to another module of the
  repository and is a parameter.
\<close>

definition transformedValue :: "(jsval \<Rightarrow> jsval + jsval) \<Rightarrow> filterSpec \<Rightarrow> error + jsval" where
  "transformedValue parseArrayValues flt =
     (let newValue =
        (case transformValue flt of
           TUndefined \<Rightarrow> Inr (rawValue flt)
         | TString t \<Rightarrow>
             if t = ''array'' then
               (case parseArrayValues (rawValue flt) of
                  Inl x \<Rightarrow> Inl (Thrown x)
                | Inr v \<Rightarrow> Inr v)
             else Inr JUndefined
         | TFunction g \<Rightarrow>
             (case g (rawValue flt) of Inl x \<Rightarrow> Inl (Thrown x) | Inr v \<Rightarrow> Inr v)
         | TOther \<Rightarrow>
             Inl (Error [Lit ''Unknown transformation value for filter on field '',
                         Val (dbField flt)]))
      in case newValue of
           Inl e \<Rightarrow> Inl e
         | Inr v \<Rightarrow>
             if isUndefined v \<and> \<not> isUndefined (defaultValue flt)
             then Inr (defaultValue flt) else Inr v)"

fun transformValues ::
  "(jsval \<Rightarrow> jsval + jsval) \<Rightarrow> filters \<Rightarrow> (string \<times> jsval) list \<Rightarrow> error + (string \<times> jsval) list"
where
  "transformValues parseArrayValues [] vals = Inr vals"
| "transformValues parseArrayValues ((key, flt) # rest) vals =
     (case transformedValue parseArrayValues flt of
        Inl e \<Rightarrow> Inl e
      | Inr v \<Rightarrow> transformValues parseArrayValues rest (obj_set vals key v))"

definition getTransformedValues ::
  "(jsval \<Rightarrow> jsval + jsval) \<Rightarrow> filters \<Rightarrow> error + (string \<times> jsval) list"
where
  "getTransformedValues parseArrayValues fs = transformValues parseArrayValues fs []"

section \<open>Range guard and predicate compiler\<close>

text \<open>
  \<open>rangeFilterSchema\<close> is \<open>Joi.alternatives().try(Joi.any(), ...).required()\<close>: its first
  alternative matches every value, so \<open>checkRangeFilter\<close> fails on \<open>undefined\<close> only.
\<close>

definition checkRangeFilter :: "jsval \<Rightarrow> string \<Rightarrow> error option" where
  "checkRangeFilter v key =
     (if v = JUndefined then Some (ValidationError [Lit ''Bad range filter '', Val (JStr key)])
      else None)"

fun getMinRangeValue :: "jsval \<Rightarrow> jsval" where
  "getMinRangeValue (JObj kvs) =
     (let gt = obj_get kvs ''gt''; gte = obj_get kvs ''gte'' in
      if \<not> isUndefined gt \<and> \<not> isUndefined gte then (if js_lt gt gte then gt else gte)
      else if \<not> isUndefined gt then gt
      else if \<not> isUndefined gte then gte
      else JUndefined)"
| "getMinRangeValue v = v"

text \<open>
  The range values whose comparisons, in \<open>getMinRangeValue\<close> and then of the lower bound
  with a minimum \<open>m\<close>, are all between comparable operands. The second comparison is made
  for a truthy lower bound only.
\<close>

definition comparableBounds :: "jsval \<Rightarrow> jsval \<Rightarrow> bool" where
  "comparableBounds v m =
     ((case v of
         JObj kvs \<Rightarrow>
           isUndefined (obj_get kvs ''gt'') \<or> isUndefined (obj_get kvs ''gte'')
           \<or> comparableScalars (obj_get kvs ''gt'') (obj_get kvs ''gte'')
       | _ \<Rightarrow> True)
      \<and> (if truthy (getMinRangeValue v) then comparableScalars (getMinRangeValue v) m
          else True))"

text \<open>
  The body of \<open>whereJsonbColumnSupersetOf\<close>, and the pieces of the \<open>range\<close> branch of
  \<open>addFiltersToQueryBuilder\<close>: the assignment \<open>transformedValue.gte = minValue\<close> with its
  guard, and the four guarded \<open>where\<close> calls.
\<close>

definition whereJsonbColumnSupersetOf :: "qb_call list \<Rightarrow> jsval \<Rightarrow> jsval \<Rightarrow> error + qb_call list" where
  "whereJsonbColumnSupersetOf qb columnName data =
     (if \<not> isString columnName then Inl (Error [Lit ''String `columnName` expected.''])
      else if \<not> isPlainObject data then Inl (Error [Lit ''`data` object expected''])
      else Inr (qb @ [QWhereRaw ''??::jsonb @> ?::jsonb'' [columnName, data]]))"

fun injectMinValue :: "jsval \<Rightarrow> jsval \<Rightarrow> jsval" where
  "injectMinValue (JObj kvs) minV =
     (if isUndefined (obj_get kvs ''gt'') \<and> isUndefined (obj_get kvs ''gte'')
      then JObj (obj_set kvs ''gte'' minV) else JObj kvs)"
| "injectMinValue v minV = v"

definition boundWhere :: "jsval \<Rightarrow> string \<Rightarrow> jsval \<Rightarrow> qb_call list" where
  "boundWhere field op v = (if truthy v then [QWhereOp field op v] else [])"

definition rangeWheres :: "jsval \<Rightarrow> jsval \<Rightarrow> error + qb_call list" where
  "rangeWheres field tv =
     (case (read_prop tv ''lt'', read_prop tv ''lte'', read_prop tv ''gt'', read_prop tv ''gte'') of
        (Some lt, Some lte, Some gt, Some gte) \<Rightarrow>
          Inr (boundWhere field ''<'' lt @ boundWhere field ''<='' lte
               @ boundWhere field ''>'' gt @ boundWhere field ''>='' gte)
      | _ \<Rightarrow> Inl (TypeError [Lit ''Cannot read property lt of null'']))"

text \<open>
  The state of one run of \<open>addFiltersToQueryBuilder\<close>: what was thrown, if anything, with
  the builder and the normalized values as they are at that moment (the function
  changes both in place). A normalized object may be the very object a specification
  holds as its raw or default value; what the assignment of \<open>gte\<close> then does to the
  specification is followed by \<open>writeBack\<close> below.
\<close>

record outcome =
  thrown :: "error option"
  builder :: "qb_call list"
  normalized :: "(string \<times> jsval) list"

text \<open>The body of the \<open>forEach\<close> callback, for one key and its specification.\<close>

definition addFilter ::
  "qb_call list \<Rightarrow> string \<Rightarrow> filterSpec \<Rightarrow> (string \<times> jsval) list \<Rightarrow> outcome"
where
  "addFilter qb key flt tvs =
     (let tv = obj_get tvs key;
          isCustomQuery = (case query flt of SFunction g \<Rightarrow> True | _ \<Rightarrow> False) in
      if isUndefined tv then \<lparr>thrown = None, builder = qb, normalized = tvs\<rparr>
      else if \<not> isCustomQuery \<and> \<not> truthy (dbField flt) then
        \<lparr>thrown = Some (Error [Lit ''dbField is needed for filter with key '', Val (JStr key)]),
         builder = qb, normalized = tvs\<rparr>
      else
        (case query flt of
           SUndefined \<Rightarrow>
             \<lparr>thrown = None, builder = qb @ [QWhere (dbField flt) tv], normalized = tvs\<rparr>
         | SString q \<Rightarrow>
             if q = ''range'' then
               (case checkRangeFilter tv key of
                  Some e \<Rightarrow> \<lparr>thrown = Some e, builder = qb, normalized = tvs\<rparr>
                | None \<Rightarrow>
                    (let minRangeValue = getMinRangeValue tv in
                     if truthy minRangeValue \<and> js_lt minRangeValue (minValue flt) then
                       \<lparr>thrown = Some (HttpError 400
                          [Val (JStr key), Lit '' value cannot be lower than '',
                           Val (minValue flt)]),
                        builder = qb, normalized = tvs\<rparr>
                     else
                       (let tv' = (if truthy minRangeValue then tv
                                   else injectMinValue tv (minValue flt));
                            tvs' = obj_set tvs key tv' in
                        case rangeWheres (dbField flt) tv' of
                          Inl e \<Rightarrow> \<lparr>thrown = Some e, builder = qb, normalized = tvs'\<rparr>
                        | Inr ws \<Rightarrow> \<lparr>thrown = None, builder = qb @ ws, normalized = tvs'\<rparr>)))
             else if q = ''inList'' then
               \<lparr>thrown = None, builder = qb @ [QWhereIn (dbField flt) tv], normalized = tvs\<rparr>
             else if q = ''jsonSupersetOf'' then
               (case whereJsonbColumnSupersetOf qb (dbField flt) (rawValue flt) of
                  Inl e \<Rightarrow> \<lparr>thrown = Some e, builder = qb, normalized = tvs\<rparr>
                | Inr qb' \<Rightarrow> \<lparr>thrown = None, builder = qb', normalized = tvs\<rparr>)
             else \<lparr>thrown = None, builder = qb, normalized = tvs\<rparr>
         | SFunction g \<Rightarrow>
             (case g qb tv tvs of
                (x, qb') \<Rightarrow> \<lparr>thrown = map_option Thrown x, builder = qb', normalized = tvs\<rparr>)
         | SOther \<Rightarrow>
             \<lparr>thrown = Some (Error [Lit ''Unknown query for filter on field '',
                                     Val (dbField flt)]),
              builder = qb, normalized = tvs\<rparr>))"

fun addFiltersToQueryBuilder :: "qb_call list \<Rightarrow> filters \<Rightarrow> (string \<times> jsval) list \<Rightarrow> outcome" where
  "addFiltersToQueryBuilder qb [] tvs = \<lparr>thrown = None, builder = qb, normalized = tvs\<rparr>"
| "addFiltersToQueryBuilder qb ((key, flt) # rest) tvs =
     (let r = addFilter qb key flt tvs in
      case thrown r of
        Some e \<Rightarrow> r
      | None \<Rightarrow> addFiltersToQueryBuilder (builder r) rest (normalized r))"

section \<open>Shape validation\<close>

text \<open>
  The Joi schemas, on typed configurations. \<open>orderConfigSchema\<close> wants a (non-empty)
  string \<open>orderBy\<close> and \<open>order\<close> among \<open>asc\<close> and \<open>desc\<close>; \<open>paginationConfigSchema\<close> wants two
  integers from \<open>1\<close> up, and \<open>Joi.number()\<close> refuses a number beyond the safe integers,
  \<open>2^53 - 1\<close>; \<open>filtersSchema\<close> wants at least one entry, each under a
  (non-empty) string key and with a string \<open>dbField\<close> if any, \<open>transformValue\<close> the tag \<open>array\<close> or a function, and \<open>query\<close> one
  of the three tags or a function. Each check throws the Joi error with its prefix.
\<close>

record orderConfig =
  orderBy :: jsval
  order :: jsval

record paginationConfig =
  page :: int
  nbResultsPerPage :: int

fun validName :: "jsval \<Rightarrow> bool" where
  "validName (JStr s) = (s \<noteq> [])"
| "validName v = False"

definition checkOrderConfig :: "orderConfig \<Rightarrow> error option" where
  "checkOrderConfig oc =
     (if validName (orderBy oc) \<and> (order oc = JStr ''asc'' \<or> order oc = JStr ''desc'')
      then None else Some (ValidationError [Lit ''Bad order config: '']))"

definition checkPaginationConfig :: "paginationConfig \<Rightarrow> error option" where
  "checkPaginationConfig pc =
     (if 1 \<le> page pc \<and> page pc \<le> 9007199254740991
         \<and> 1 \<le> nbResultsPerPage pc \<and> nbResultsPerPage pc \<le> 9007199254740991
      then None else Some (ValidationError [Lit ''Bad pagination config: '']))"

fun validTransform :: "transform \<Rightarrow> bool" where
  "validTransform TUndefined = True"
| "validTransform (TString t) = (t = ''array'')"
| "validTransform (TFunction g) = True"
| "validTransform TOther = False"

fun validQuery :: "strategy \<Rightarrow> bool" where
  "validQuery SUndefined = True"
| "validQuery (SString q) = (q = ''range'' \<or> q = ''inList'' \<or> q = ''jsonSupersetOf'')"
| "validQuery (SFunction g) = True"
| "validQuery SOther = False"

definition validFilterSpec :: "filterSpec \<Rightarrow> bool" where
  "validFilterSpec flt =
     ((isUndefined (dbField flt) \<or> validName (dbField flt))
      \<and> validTransform (transformValue flt) \<and> validQuery (query flt))"

definition checkFilters :: "filters \<Rightarrow> error option" where
  "checkFilters fs =
     (if fs \<noteq> [] \<and> list_all (\<lambda>kf. fst kf \<noteq> [] \<and> validFilterSpec (snd kf)) fs
      then None else Some (ValidationError [Lit ''Bad filters: '']))"

section \<open>Path expressions\<close>

definition dq :: char where "dq = CHR 0x22"
definition sq :: char where "sq = CHR 0x27"

fun split_path :: "string \<Rightarrow> string \<Rightarrow> string list" where
  "split_path cur [] = (if cur = [] then [] else [cur])"
| "split_path cur (c # cs) =
     (if c = CHR ''.'' \<or> c = CHR ''['' \<or> c = CHR '']''
      then (if cur = [] then [] else [cur]) @ split_path [] cs
      else split_path (cur @ [c]) cs)"

fun join :: "string \<Rightarrow> string list \<Rightarrow> string" where
  "join sep [] = []"
| "join sep [x] = x"
| "join sep (x # y # ys) = x @ sep @ join sep (y # ys)"

definition getSqlExpression :: "string \<Rightarrow> string" where
  "getSqlExpression attr =
     (let parts = split_path [] attr;
          column = (case parts of [] \<Rightarrow> ''undefined'' | p # ps \<Rightarrow> p) in
      if length parts = 1 then [dq] @ column @ [dq]
      else [dq] @ column @ [dq] @ ''#>>'' @ [sq] @ ''{'' @ join '','' (tl parts) @ ''}'' @ [sq])"

section \<open>Pagination and rounding helpers\<close>

record pageResult = paginationConfig +
  nbResults :: jsval
  nbPages :: jsval
  results :: "(string \<times> jsval) list list"

text \<open>
  Modelled from the spec: \<open>getPaginationMeta\<close> of the module \<open>util/list\<close>, which is not
  among the sources. It gives the page metadata \<open>{ nbResults, nbPages, page,
  nbResultsPerPage }\<close> with \<open>nbPages = ceil(nbResults / nbResultsPerPage)\<close>; the planners
  then store \<open>results\<close> in it.
\<close>

definition getPaginationMeta :: "jsval \<Rightarrow> int \<Rightarrow> int \<Rightarrow> pageResult" where
  "getPaginationMeta nbRes perPage pg =
     \<lparr>page = pg, nbResultsPerPage = perPage, nbResults = nbRes,
      nbPages = (case to_number nbRes of
                   None \<Rightarrow> JNaN
                 | Some q \<Rightarrow> JNum (of_int (ceiling (q / of_int perPage)))),
      results = []\<rparr>"

text \<open>
  Modelled from the spec: \<open>roundDecimal\<close> of the module \<open>util/math\<close>, which is not among
  the sources. It rounds a number to the given count of decimal digits; \<open>NaN\<close> stays
  \<open>NaN\<close>. The aggregation planner calls it on numbers only.
\<close>

fun roundDecimal :: "jsval \<Rightarrow> nat \<Rightarrow> jsval" where
  "roundDecimal (JNum q) decimals = JNum (of_int (round (q * 10 ^ decimals)) / 10 ^ decimals)"
| "roundDecimal v decimals = v"

text \<open>
  \<open>parseInt(v, 10)\<close> on what a count column holds: a decimal string (leading blanks, a
  sign, then the longest run of digits; \<open>NaN\<close> without a digit) or a number (cut to its
  integer part). Any other value is read as \<open>NaN\<close>. The result is the integer the digits
  denote; the language gives the nearest double, which is that integer up to \<open>2^53\<close>.
\<close>

fun sign_digits :: "string \<Rightarrow> rat option" where
  "sign_digits [] = None"
| "sign_digits (c # cs) =
     (if c = CHR ''-'' then
        (if takeWhile (\<lambda>d. digit_val d \<noteq> None) cs = [] then None
         else map_option (\<lambda>n. - of_nat n) (digits_val 0 (takeWhile (\<lambda>d. digit_val d \<noteq> None) cs)))
      else if c = CHR ''+'' then
        (if takeWhile (\<lambda>d. digit_val d \<noteq> None) cs = [] then None
         else map_option of_nat (digits_val 0 (takeWhile (\<lambda>d. digit_val d \<noteq> None) cs)))
      else
        (if takeWhile (\<lambda>d. digit_val d \<noteq> None) (c # cs) = [] then None
         else map_option of_nat (digits_val 0 (takeWhile (\<lambda>d. digit_val d \<noteq> None) (c # cs)))))"

fun parseInt10 :: "jsval \<Rightarrow> jsval" where
  "parseInt10 (JStr s) =
     (case sign_digits (dropWhile is_blank s) of None \<Rightarrow> JNaN | Some q \<Rightarrow> JNum q)"
| "parseInt10 (JNum q) = JNum (of_int (if q < 0 then ceiling q else floor q))"
| "parseInt10 v = JNaN"

text \<open>\<open>Array.prototype.slice(start, end)\<close>: a negative index counts from the end.\<close>

definition js_slice :: "'a list \<Rightarrow> int \<Rightarrow> int \<Rightarrow> 'a list" where
  "js_slice xs start stop =
     (let len = int (length xs);
          k = (if start < 0 then max (len + start) 0 else min start len);
          final = (if stop < 0 then max (len + stop) 0 else min stop len) in
      take (nat (final - k)) (drop (nat k) xs))"

section \<open>Collaborators\<close>

text \<open>
  What the planners use and do not own: \<open>parseArrayValues\<close> (module \<open>util/list\<close>) and the
  storage, which runs a built query (\<open>await queryBuilder\<close>) and gives the rows or throws.
  A row is a plain object.
\<close>

record env =
  parseArrayValues :: "jsval \<Rightarrow> jsval + jsval"
  run :: "qb_call list \<Rightarrow> jsval + (string \<times> jsval) list list"

definition name_or_undefined :: "string option \<Rightarrow> jsval" where
  "name_or_undefined x = (case x of None \<Rightarrow> JUndefined | Some s \<Rightarrow> JStr s)"

text \<open>
  Normalizing and applying a filter mapping on a builder, as the three planners do:
  \<open>getTransformedValues\<close>, then \<open>addFiltersToQueryBuilder\<close>.
\<close>

definition applyFilters :: "env \<Rightarrow> qb_call list \<Rightarrow> filters \<Rightarrow> error + qb_call list" where
  "applyFilters e qb fs =
     (case getTransformedValues (parseArrayValues e) fs of
        Inl err \<Rightarrow> Inl err
      | Inr tvs \<Rightarrow>
          (let r = addFiltersToQueryBuilder qb fs tvs in
           case thrown r of Some err \<Rightarrow> Inl err | None \<Rightarrow> Inr (builder r)))"

text \<open>
  \<open>getTransformedValues\<close> hands out the value objects of the specifications themselves:
  with no \<open>transformValue\<close> the normalized value is \<open>filter.value\<close>, and the substituted
  default is \<open>filter.defaultValue\<close>. The assignment \<open>transformedValue.gte = minValue\<close> of the
  range branch is then a write into the caller's specification. \<open>normalizedOrigin\<close> says
  which object the normalized value of a specification is: its raw value, its default
  value, or the result of \<open>parseArrayValues\<close> or of a custom transform, which is taken to
  be an object of its own (as each specification is taken to hold value objects of its
  own). \<open>writeBack\<close> gives the caller's mapping after a run that applied the
  specifications \<open>applied\<close>, held by the caller under the same keys, and left the
  normalized values \<open>tvs\<close>.
\<close>

datatype origin = RawValueObject | DefaultValueObject | OwnObject

definition normalizedOrigin :: "(jsval \<Rightarrow> jsval + jsval) \<Rightarrow> filterSpec \<Rightarrow> origin" where
  "normalizedOrigin parse flt =
     (let newValue =
        (case transformValue flt of
           TUndefined \<Rightarrow> rawValue flt
         | TString t \<Rightarrow>
             if t = ''array'' then
               (case parse (rawValue flt) of Inl x \<Rightarrow> JUndefined | Inr v \<Rightarrow> v)
             else JUndefined
         | TFunction g \<Rightarrow> (case g (rawValue flt) of Inl x \<Rightarrow> JUndefined | Inr v \<Rightarrow> v)
         | TOther \<Rightarrow> JUndefined)
      in if isUndefined newValue \<and> \<not> isUndefined (defaultValue flt) then DefaultValueObject
         else (case transformValue flt of TUndefined \<Rightarrow> RawValueObject | _ \<Rightarrow> OwnObject))"

definition writeBackSpec :: "origin \<Rightarrow> jsval \<Rightarrow> filterSpec \<Rightarrow> filterSpec" where
  "writeBackSpec og v flt =
     (case og of
        RawValueObject \<Rightarrow> flt\<lparr>rawValue := v\<rparr>
      | DefaultValueObject \<Rightarrow> flt\<lparr>defaultValue := v\<rparr>
      | OwnObject \<Rightarrow> flt)"

definition writeBack ::
  "(jsval \<Rightarrow> jsval + jsval) \<Rightarrow> (string \<times> jsval) list \<Rightarrow> filters \<Rightarrow> filters \<Rightarrow> filters"
where
  "writeBack parse tvs applied callers =
     fold (\<lambda>kf fs.
             case map_of fs (fst kf) of
               None \<Rightarrow> fs
             | Some flt \<Rightarrow>
                 obj_set fs (fst kf)
                   (writeBackSpec (normalizedOrigin parse (snd kf))
                      (obj_get tvs (fst kf)) flt))
          applied callers"

text \<open>
  \<open>applyFilters\<close> on the filters \<open>fs\<close>, with what it leaves of the caller's mapping. When
  \<open>getTransformedValues\<close> throws nothing was written; when \<open>addFiltersToQueryBuilder\<close>
  throws the writes made up to there stay.
\<close>

definition applyFiltersShared ::
  "env \<Rightarrow> qb_call list \<Rightarrow> filters \<Rightarrow> filters \<Rightarrow> (error + qb_call list) \<times> filters"
where
  "applyFiltersShared e qb fs callers =
     (case getTransformedValues (parseArrayValues e) fs of
        Inl err \<Rightarrow> (Inl err, callers)
      | Inr tvs \<Rightarrow>
          (let r = addFiltersToQueryBuilder qb fs tvs;
               callers' = writeBack (parseArrayValues e) (normalized r) fs callers in
           case thrown r of
             Some err \<Rightarrow> (Inl err, callers')
           | None \<Rightarrow> (Inr (builder r), callers')))"

section \<open>Aggregation query planner\<close>

text \<open>
  The callback given to \<open>with('aggregations', ...)\<close>: the calls it makes on the
  sub-builder. Knex runs it when the query is compiled, that is when it is awaited.
\<close>

definition aggregationsQuery ::
  "env \<Rightarrow> string \<Rightarrow> string \<Rightarrow> string option \<Rightarrow> filters option \<Rightarrow> orderConfig
     \<Rightarrow> error + qb_call list"
where
  "aggregationsQuery e schema groupBy field fs oc =
     (let sqlGroupByExpression = getSqlExpression groupBy;
          sqlStatsFieldExpression =
            (case field of
               None \<Rightarrow> None
             | Some f \<Rightarrow> if f \<noteq> [] then Some (getSqlExpression f) else None);
          qb = [QFrom (Ident (schema @ ''.event'')),
                QSelect [Raw (sqlGroupByExpression @ '' as '' @ [dq] @ ''groupByField'' @ [dq]) []],
                QCount,
                QGroupBy ''groupByField'',
                QOrderBy (orderBy oc) (order oc)];
          qb' = (case sqlStatsFieldExpression of
                   None \<Rightarrow> qb
                 | Some x \<Rightarrow>
                     qb @ [QAvg ''avg'' (Raw (''('' @ x @ '')::REAL'') []),
                           QSum ''sum'' (Raw (''('' @ x @ '')::REAL'') []),
                           QMin ''min'' (Raw (''('' @ x @ '')::REAL'') []),
                           QMax ''max'' (Raw (''('' @ x @ '')::REAL'') [])]) in
      case fs of
        None \<Rightarrow> Inr qb'
      | Some filters \<Rightarrow> applyFilters e qb' filters)"

text \<open>
  The \<open>catch\<close> clause around the two awaited queries: an error whose \<open>code\<close> is \<open>22P02\<close>
  becomes a 422, any other is thrown again. Reading \<open>err.code\<close> of a thrown \<open>null\<close> or
  \<open>undefined\<close> is itself a TypeError.
\<close>

definition translateError :: "string option \<Rightarrow> error \<Rightarrow> error" where
  "translateError field err =
     (case err of
        Thrown v \<Rightarrow>
          (case read_prop v ''code'' of
             None \<Rightarrow> TypeError [Lit ''Cannot read property code of null'']
           | Some c \<Rightarrow>
               if c = JStr ''22P02'' then
                 HttpError 422 [Lit ''Non-number value was found for field '', Lit [dq],
                                Val (name_or_undefined field), Lit [dq]]
               else err)
      | _ \<Rightarrow> err)"

text \<open>The function mapped over the result rows.\<close>

definition defaultOperator :: "string \<Rightarrow> (string \<times> jsval) list \<Rightarrow> (string \<times> jsval) list" where
  "defaultOperator op r = (if isUndefined (obj_get r op) then obj_set r op JNull else r)"

definition formatRow :: "string \<Rightarrow> nat \<Rightarrow> (string \<times> jsval) list \<Rightarrow> (string \<times> jsval) list" where
  "formatRow groupBy avgPrecision r =
     (let r1 = obj_set r ''groupBy'' (JStr groupBy);
          r2 = obj_set r1 ''groupByValue'' (obj_get r1 ''groupByField'');
          r3 = obj_delete r2 ''groupByField'';
          r4 = (if truthy (obj_get r3 ''count'')
                then obj_set r3 ''count'' (parseInt10 (obj_get r3 ''count'')) else r3);
          r5 = (if isNumber (obj_get r4 ''avg'')
                then obj_set r4 ''avg'' (roundDecimal (obj_get r4 ''avg'') avgPrecision) else r4) in
      fold defaultOperator [''avg'', ''sum'', ''min'', ''max''] r5)"

text \<open>
  \<open>performAggregationQuery\<close>. \<open>schema\<close> and \<open>avgPrecision\<close> are \<open>None\<close> when the caller
  leaves them out, and take their defaults \<open>public\<close> and \<open>2\<close>. The two queries of
  \<open>Promise.all\<close> are run one after the other, the page first.
\<close>

definition performAggregationQuery ::
  "env \<Rightarrow> qb_call list \<Rightarrow> string option \<Rightarrow> string \<Rightarrow> string option \<Rightarrow> nat option
     \<Rightarrow> filters option \<Rightarrow> paginationConfig \<Rightarrow> orderConfig \<Rightarrow> error + pageResult"
where
  "performAggregationQuery e queryBuilder schemaOpt groupBy field avgPrecisionOpt fs pc oc =
     (let schema = (case schemaOpt of None \<Rightarrow> ''public'' | Some s \<Rightarrow> s);
          avgPrecision = (case avgPrecisionOpt of None \<Rightarrow> 2 | Some n \<Rightarrow> n) in
      case checkOrderConfig oc of
        Some err \<Rightarrow> Inl err
      | None \<Rightarrow>
      (case (case fs of None \<Rightarrow> None | Some filters \<Rightarrow> checkFilters filters) of
        Some err \<Rightarrow> Inl err
      | None \<Rightarrow>
      (case checkPaginationConfig pc of
        Some err \<Rightarrow> Inl err
      | None \<Rightarrow>
      if field = Some groupBy then
        Inl (HttpError 422
               [Val (name_or_undefined field), Lit '' cannot be field and groupBy at the same time''])
      else
      (case aggregationsQuery e schema groupBy field fs oc of
        Inl err \<Rightarrow> Inl (translateError field err)
      | Inr sub \<Rightarrow>
      (let qb = queryBuilder @ [QWith ''aggregations'' sub, QSelect [],
                                QFrom (Ident ''aggregations''), QWhereNotNull ''groupByField''];
           countQueryBuilder = qb;
           qb' = qb @ [QOrderBy (orderBy oc) (order oc),
                       QOffset ((page pc - 1) * nbResultsPerPage pc),
                       QLimit (nbResultsPerPage pc)] in
       case run e qb' of
         Inl x \<Rightarrow> Inl (translateError field (Thrown x))
       | Inr queryResults \<Rightarrow>
       (case run e (countQueryBuilder @ [QCount]) of
         Inl x \<Rightarrow> Inl (translateError field (Thrown x))
       | Inr [] \<Rightarrow> Inl (TypeError [Lit ''Cannot destructure property count of undefined''])
       | Inr (c # cs) \<Rightarrow>
           Inr ((getPaginationMeta (obj_get c ''count'') (nbResultsPerPage pc) (page pc))
                  \<lparr>results := map (formatRow groupBy avgPrecision) queryResults\<rparr>)))))))"

section \<open>History query planner\<close>

text \<open>
  The retention guard, the block under \<open>if (filters)\<close>. \<open>compact\<close> is \<open>_.compact\<close> on the
  two filter names, and reading \<open>filters[timeFilter].value\<close> throws a TypeError when the
  mapping has no such entry. The guard gives \<open>useOnlyNonTimeRestrictedFilters\<close>.

  \<open>valueIsUndefined\<close> is \<open>_.isUndefined(_.get(filters, key + '.value'))\<close> for a key of the
  mapping. lodash reads its second argument as a path. When the whole string
  \<open>key.value\<close> is itself a key of the mapping, it is read as that property, a
  specification object, which is defined. Otherwise the string is cut at every \<open>.\<close> and
  at brackets: for a key without \<open>.\<close>, \<open>[\<close> and \<open>]\<close> (\<open>plainKey\<close>) the path is the key and then
  \<open>value\<close>, so the read is \<open>filters[key].value\<close>. Any other key is cut into several
  segments and \<open>filters[key]\<close> is not what is read: the read gives \<open>undefined\<close> when the
  first segment names no filter, as for the key \<open>data.x\<close> in a mapping with no key
  \<open>data\<close>. A path that enters another specification is not followed further and reads
  \<open>undefined\<close> here as well; the statements about the guard are made for plain keys.
\<close>

definition compact :: "string option list \<Rightarrow> string list" where
  "compact xs = concat (map (\<lambda>x. case x of None \<Rightarrow> [] | Some s \<Rightarrow> if s = [] then [] else [s]) xs)"

definition timeRestrictedFilterKeys :: "string \<Rightarrow> string option \<Rightarrow> filters \<Rightarrow> string list" where
  "timeRestrictedFilterKeys timeFilter secondaryFilter fs =
     filter (\<lambda>k. k \<notin> set (compact [Some timeFilter, secondaryFilter])) (map fst fs)"

definition plainKey :: "string \<Rightarrow> bool" where
  "plainKey k = list_all (\<lambda>c. c \<noteq> CHR ''.'' \<and> c \<noteq> CHR ''['' \<and> c \<noteq> CHR '']'') k"

definition valueIsUndefined :: "filters \<Rightarrow> string \<Rightarrow> bool" where
  "valueIsUndefined fs key =
     (if key @ ''.value'' \<in> set (map fst fs) then False
      else if plainKey key then
        (case map_of fs key of None \<Rightarrow> True | Some flt \<Rightarrow> isUndefined (rawValue flt))
      else True)"

definition useOnlyNonTimeRestrictedFilters :: "string \<Rightarrow> string option \<Rightarrow> filters \<Rightarrow> bool" where
  "useOnlyNonTimeRestrictedFilters timeFilter secondaryFilter fs =
     list_all (\<lambda>key. valueIsUndefined fs key)
       (timeRestrictedFilterKeys timeFilter secondaryFilter fs)"

definition retentionGuard :: "string \<Rightarrow> string option \<Rightarrow> string \<Rightarrow> filters \<Rightarrow> error + bool" where
  "retentionGuard timeFilter secondaryFilter retentionLimitDate fs =
     (case checkFilters fs of
        Some err \<Rightarrow> Inl err
      | None \<Rightarrow>
          (let useOnly = useOnlyNonTimeRestrictedFilters timeFilter secondaryFilter fs in
           case map_of fs timeFilter of
             None \<Rightarrow> Inl (TypeError [Lit ''Cannot read property value of undefined''])
           | Some flt \<Rightarrow>
               (let minRangeValue = getMinRangeValue (rawValue flt) in
                if truthy minRangeValue \<and> js_lt minRangeValue (JStr retentionLimitDate)
                   \<and> \<not> useOnly
                then Inl (HttpError 400
                            [Lit ''All filters are disabled before '', Val (JStr retentionLimitDate)])
                else Inr useOnly)))"

text \<open>The raw select expression, built by the immediately invoked function.\<close>

definition historySelect :: "bool \<Rightarrow> string \<Rightarrow> string \<Rightarrow> string \<Rightarrow> string option \<Rightarrow> sql" where
  "historySelect useContinuousAggregate interval timeColumn groupBy secondaryFilter =
     (let q1 = (if useContinuousAggregate then ''??''
                else ''public.time_bucket(INTERVAL '' @ [sq] @ interval @ [sq] @ '', ??)'');
          p1 = (if useContinuousAggregate then [JStr groupBy] else [JStr timeColumn]);
          q2 = q1 @ '' AT TIME ZONE '' @ [sq] @ ''UTC'' @ [sq] @ '' as ??'';
          p2 = p1 @ [JStr groupBy];
          q3 = q2 @ '', '';
          q4 = (if useContinuousAggregate then
                  (if truthy (name_or_undefined secondaryFilter)
                   then q3 @ ''sum(count)::REAL as count'' else q3 @ ''count'')
                else q3 @ ''count(*)'') in
      Raw q4 p2)"

text \<open>
  A filter mapping holds its specifications by reference. Where that matters, the
  caller's mapping is read as its keys, each with the address of its specification
  object (\<open>specRefs\<close>: the objects are numbered in key order), and a store of these
  objects (\<open>specStore\<close>); \<open>deref\<close> reads a mapping of references in a store.
\<close>

definition specRefs :: "filters \<Rightarrow> (string \<times> nat) list" where
  "specRefs fs = zip (map fst fs) [0..<length fs]"

definition specStore :: "filters \<Rightarrow> filterSpec list" where
  "specStore fs = map snd fs"

definition deref :: "(string \<times> nat) list \<Rightarrow> filterSpec list \<Rightarrow> filters" where
  "deref refs store = map (\<lambda>ka. (fst ka, store ! snd ka)) refs"

text \<open>
  \<open>_.pick(object, paths)\<close> for paths that are keys of the object or plain (a path that
  is neither is read by lodash as a nested path): a new object with the entries found,
  in the order of the paths; an \<open>undefined\<close> path is the key \<open>undefined\<close>. The values are copied
  as they are, so the picked filter mapping holds the addresses of the caller's
  specification objects, and the assignment \<open>newFilters[timeFilter].dbField = groupBy\<close>
  writes into the store both mappings read. \<open>narrowFilters\<close> gives the filters to apply
  and the caller's mapping as it is left.
\<close>

definition pick :: "(string \<times> 'a) list \<Rightarrow> string list \<Rightarrow> (string \<times> 'a) list" where
  "pick obj ks = fold (\<lambda>k acc. case map_of obj k of None \<Rightarrow> acc | Some v \<Rightarrow> obj_set acc k v) ks []"

definition narrowFilters ::
  "bool \<Rightarrow> string \<Rightarrow> string option \<Rightarrow> string \<Rightarrow> filters \<Rightarrow> (error + filters) \<times> filters"
where
  "narrowFilters useContinuousAggregate timeFilter secondaryFilter groupBy fs =
     (if useContinuousAggregate then
        (let refs = specRefs fs;
             store = specStore fs;
             newRefs = pick refs [timeFilter,
                                  (case secondaryFilter of None \<Rightarrow> ''undefined'' | Some s \<Rightarrow> s)] in
         case map_of newRefs timeFilter of
           None \<Rightarrow> (Inl (TypeError [Lit ''Cannot set property dbField of undefined'']), fs)
         | Some a \<Rightarrow>
             (let store' = store[a := (store ! a)\<lparr>dbField := JStr groupBy\<rparr>] in
              (Inr (deref newRefs store'), deref refs store')))
      else (Inr fs, fs))"

text \<open>
  The query as it stands when it is awaited. \<open>historyBase\<close> is the builder after
  \<open>select\<close>, \<open>from\<close> and the optional \<open>groupBy\<close>; \<open>historyQuery\<close> then applies the filters
  and the ordering. Its second component is the caller's filter mapping after these
  steps, with the writes of \<open>dbField\<close> and of \<open>gte\<close> into its specifications.
\<close>

definition historyBase ::
  "qb_call list \<Rightarrow> string \<Rightarrow> string \<Rightarrow> string \<Rightarrow> string option \<Rightarrow> jsval \<Rightarrow> string \<Rightarrow> bool
     \<Rightarrow> qb_call list"
where
  "historyBase queryBuilder schema table timeColumn secondaryFilter view groupBy
       useContinuousAggregate =
     (let interval = (if groupBy = ''hour'' then ''1 hour''
                      else if groupBy = ''day'' then ''1 day'' else ''30 days'');
          select = historySelect useContinuousAggregate interval timeColumn groupBy secondaryFilter;
          qb1 = queryBuilder @ [QSelect [select],
                  QFrom (Raw ''??.??'' [JStr schema,
                           if useContinuousAggregate then view else JStr table])] in
      if \<not> useContinuousAggregate
         \<or> (useContinuousAggregate \<and> truthy (name_or_undefined secondaryFilter))
      then qb1 @ [QGroupBy groupBy] else qb1)"

definition historyQuery ::
  "env \<Rightarrow> qb_call list \<Rightarrow> string \<Rightarrow> string \<Rightarrow> string \<Rightarrow> string \<Rightarrow> string option
     \<Rightarrow> (string \<times> jsval) list \<Rightarrow> string \<Rightarrow> bool \<Rightarrow> filters option \<Rightarrow> orderConfig
     \<Rightarrow> (error + qb_call list) \<times> filters option"
where
  "historyQuery e queryBuilder schema table timeFilter timeColumn secondaryFilter groupByViews
       groupBy useOnly fs oc =
     (let view = obj_get groupByViews groupBy;
          useContinuousAggregate = (useOnly \<and> truthy view);
          qb2 = historyBase queryBuilder schema table timeColumn secondaryFilter view groupBy
                  useContinuousAggregate in
      case fs of
        None \<Rightarrow> (Inr (qb2 @ [QOrderBy (orderBy oc) (order oc)]), None)
      | Some filters \<Rightarrow>
          (case narrowFilters useContinuousAggregate timeFilter secondaryFilter groupBy filters of
             (Inl err, filters') \<Rightarrow> (Inl err, Some filters')
           | (Inr newFilters, filters') \<Rightarrow>
               (case applyFiltersShared e qb2 newFilters filters' of
                  (Inl err, filters'') \<Rightarrow> (Inl err, Some filters'')
                | (Inr qb3, filters'') \<Rightarrow>
                    (Inr (qb3 @ [QOrderBy (orderBy oc) (order oc)]), Some filters''))))"

text \<open>
  \<open>performHistoryQuery\<close>. \<open>timeFilter\<close>, \<open>timeColumn\<close> and \<open>groupByViews\<close> are \<open>None\<close> when
  the caller leaves them out, and take their defaults. The result comes with the
  caller's filter mapping as the call leaves it.
\<close>

definition performHistoryQuery ::
  "env \<Rightarrow> qb_call list \<Rightarrow> string \<Rightarrow> string \<Rightarrow> string option \<Rightarrow> string option \<Rightarrow> string option
     \<Rightarrow> (string \<times> jsval) list option \<Rightarrow> string \<Rightarrow> string \<Rightarrow> filters option
     \<Rightarrow> paginationConfig \<Rightarrow> orderConfig \<Rightarrow> (error + pageResult) \<times> filters option"
where
  "performHistoryQuery e queryBuilder schema table timeFilterOpt timeColumnOpt secondaryFilter
       groupByViewsOpt retentionLimitDate groupBy fs pc oc =
     (let timeFilter = (case timeFilterOpt of None \<Rightarrow> ''createdDate'' | Some s \<Rightarrow> s);
          timeColumn = (case timeColumnOpt of None \<Rightarrow> ''createdTimestamp'' | Some s \<Rightarrow> s);
          groupByViews = (case groupByViewsOpt of None \<Rightarrow> [] | Some v \<Rightarrow> v) in
      case checkOrderConfig oc of
        Some err \<Rightarrow> (Inl err, fs)
      | None \<Rightarrow>
      (case (case fs of
               None \<Rightarrow> Inr True
             | Some filters \<Rightarrow> retentionGuard timeFilter secondaryFilter retentionLimitDate filters) of
        Inl err \<Rightarrow> (Inl err, fs)
      | Inr useOnly \<Rightarrow>
      (case checkPaginationConfig pc of
        Some err \<Rightarrow> (Inl err, fs)
      | None \<Rightarrow>
      if groupBy \<notin> set [''hour'', ''day'', ''month''] then
        (Inl (Error [Lit ''Invalid groupBy value: '', Val (JStr groupBy)]), fs)
      else
      (case historyQuery e queryBuilder schema table timeFilter timeColumn secondaryFilter
              groupByViews groupBy useOnly fs oc of
        (Inl err, fs') \<Rightarrow> (Inl err, fs')
      | (Inr qb, fs') \<Rightarrow>
      (case run e qb of
        Inl x \<Rightarrow> (Inl (Thrown x), fs')
      | Inr allResults \<Rightarrow>
          (Inr ((getPaginationMeta (JNum (of_nat (length allResults))) (nbResultsPerPage pc) (page pc))
                  \<lparr>results := js_slice allResults ((page pc - 1) * nbResultsPerPage pc)
                                (page pc * nbResultsPerPage pc)\<rparr>),
           fs'))))))"

section \<open>Sample inputs\<close>

text \<open>
  Filter specifications used at the concrete inputs below: an equality filter and a
  range filter on a column, with a raw value and (for the range) a minimum.
\<close>

abbreviation equalityFilter :: "string \<Rightarrow> jsval \<Rightarrow> filterSpec" where
  "equalityFilter column v \<equiv>
     \<lparr>dbField = JStr column, rawValue = v, minValue = JUndefined, defaultValue = JUndefined,
      transformValue = TUndefined, query = SUndefined\<rparr>"

abbreviation rangeFilter :: "string \<Rightarrow> jsval \<Rightarrow> jsval \<Rightarrow> filterSpec" where
  "rangeFilter column v minV \<equiv>
     \<lparr>dbField = JStr column, rawValue = v, minValue = minV, defaultValue = JUndefined,
      transformValue = TUndefined, query = SString ''range''\<rparr>"

section \<open>Properties of objects and of the predicate compiler\<close>

lemma obj_get_obj_set: "obj_get (obj_set kvs k v) k' = (if k' = k then v else obj_get kvs k')"
  by (induction kvs) auto






text \<open>The \<open>range\<close> branch on a range object, in one equation.\<close>

lemma rangeWheres_obj:
  "rangeWheres d (JObj c) =
     Inr (boundWhere d ''<'' (obj_get c ''lt'') @ boundWhere d ''<='' (obj_get c ''lte'')
          @ boundWhere d ''>'' (obj_get c ''gt'') @ boundWhere d ''>='' (obj_get c ''gte''))"
  by (simp add: rangeWheres_def)

lemma getMinRangeValue_no_lower:
  "isUndefined (obj_get rng ''gt'') \<Longrightarrow> isUndefined (obj_get rng ''gte'') \<Longrightarrow>
     getMinRangeValue (JObj rng) = JUndefined"
  by (simp add: Let_def)

lemma getMinRangeValue_truthy_lower:
  "truthy (getMinRangeValue (JObj rng)) \<Longrightarrow>
     \<not> (isUndefined (obj_get rng ''gt'') \<and> isUndefined (obj_get rng ''gte''))"
  by (auto simp: Let_def)

lemma addFilter_range_obj:
  assumes "query flt = SString ''range''" and "truthy (dbField flt)"
    and "obj_get tvs key = JObj rng"
  shows "addFilter qb key flt tvs =
     (if truthy (getMinRangeValue (JObj rng))
         \<and> js_lt (getMinRangeValue (JObj rng)) (minValue flt)
      then \<lparr>thrown = Some (HttpError 400
                [Val (JStr key), Lit '' value cannot be lower than '', Val (minValue flt)]),
            builder = qb, normalized = tvs\<rparr>
      else (let c = (if isUndefined (obj_get rng ''gt'') \<and> isUndefined (obj_get rng ''gte'')
                     then obj_set rng ''gte'' (minValue flt) else rng) in
            \<lparr>thrown = None,
             builder = qb @ boundWhere (dbField flt) ''<'' (obj_get c ''lt'')
                @ boundWhere (dbField flt) ''<='' (obj_get c ''lte'')
                @ boundWhere (dbField flt) ''>'' (obj_get c ''gt'')
                @ boundWhere (dbField flt) ''>='' (obj_get c ''gte''),
             normalized = obj_set tvs key (JObj c)\<rparr>))"
proof (cases "truthy (getMinRangeValue (JObj rng))")
  case True
  then have "\<not> (isUndefined (obj_get rng ''gt'') \<and> isUndefined (obj_get rng ''gte''))"
    by (rule getMinRangeValue_truthy_lower)
  then have c: "(if isUndefined (obj_get rng ''gt'') \<and> isUndefined (obj_get rng ''gte'')
                 then obj_set rng ''gte'' (minValue flt) else rng) = rng"
    by (rule if_not_P)
  from True assms show ?thesis unfolding c
    by (simp add: addFilter_def isUndefined_def checkRangeFilter_def rangeWheres_obj Let_def
        del: getMinRangeValue.simps)
next
  case False
  with assms show ?thesis
    by (simp add: addFilter_def isUndefined_def checkRangeFilter_def rangeWheres_obj Let_def
        del: getMinRangeValue.simps)
qed

lemma boundWheres_mem:
  "w \<in> set (boundWhere d ''<'' (obj_get c ''lt'') @ boundWhere d ''<='' (obj_get c ''lte'')
          @ boundWhere d ''>'' (obj_get c ''gt'') @ boundWhere d ''>='' (obj_get c ''gte''))
   \<longleftrightarrow> (\<exists>b op. (b, op) \<in> set [(''lt'', ''<''), (''lte'', ''<=''), (''gt'', ''>''), (''gte'', ''>='')]
          \<and> truthy (obj_get c b) \<and> w = QWhereOp d op (obj_get c b))"
  by (auto simp: boundWhere_def)

lemma boundWheres_distinct:
  "distinct (boundWhere d ''<'' v1 @ boundWhere d ''<='' v2
             @ boundWhere d ''>'' v3 @ boundWhere d ''>='' v4)"
  by (simp add: boundWhere_def)

lemma boundWheres_length:
  "length (boundWhere d ''<'' v1 @ boundWhere d ''<='' v2
           @ boundWhere d ''>'' v3 @ boundWhere d ''>='' v4) \<le> 4"
  by (simp add: boundWhere_def)

section \<open>Properties of the row formatting\<close>

lemma obj_get_obj_delete: "obj_get (obj_delete kvs k) k' = (if k' = k then JUndefined else obj_get kvs k')"
  by (induction kvs) (auto simp: obj_delete_def)

lemma obj_get_defined_key: "obj_get kvs k \<noteq> JUndefined \<Longrightarrow> k \<in> fst ` set kvs"
  by (induction kvs) (auto split: if_splits)

lemma obj_get_defaultOperator:
  "obj_get (defaultOperator op r) k = (if k = op \<and> isUndefined (obj_get r k) then JNull else obj_get r k)"
  by (auto simp: defaultOperator_def obj_get_obj_set)

lemma obj_get_fold_defaultOperator:
  "obj_get (fold defaultOperator ops r) k =
     (if k \<in> set ops \<and> isUndefined (obj_get r k) then JNull else obj_get r k)"
proof (induction ops arbitrary: r)
  case Nil
  show ?case by simp
next
  case (Cons op ops)
  show ?case
    by (simp add: Cons.IH obj_get_defaultOperator isUndefined_def)
qed

lemma formatRow_op:
  assumes "op \<in> set [''avg'', ''sum'', ''min'', ''max'']"
  shows "obj_get (formatRow g p r) op =
     (if isUndefined (if op = ''avg'' \<and> isNumber (obj_get r ''avg'')
                      then roundDecimal (obj_get r ''avg'') p else obj_get r op)
      then JNull
      else (if op = ''avg'' \<and> isNumber (obj_get r ''avg'')
            then roundDecimal (obj_get r ''avg'') p else obj_get r op))"
proof -
  have k: "op \<noteq> ''groupBy''" "op \<noteq> ''groupByValue''" "op \<noteq> ''groupByField''" "op \<noteq> ''count''"
    using assms by auto
  let ?r1 = "obj_set r ''groupBy'' (JStr g)"
  let ?r2 = "obj_set ?r1 ''groupByValue'' (obj_get ?r1 ''groupByField'')"
  let ?r3 = "obj_delete ?r2 ''groupByField''"
  let ?r4 = "if truthy (obj_get ?r3 ''count'')
             then obj_set ?r3 ''count'' (parseInt10 (obj_get ?r3 ''count'')) else ?r3"
  let ?r5 = "if isNumber (obj_get ?r4 ''avg'')
             then obj_set ?r4 ''avg'' (roundDecimal (obj_get ?r4 ''avg'') p) else ?r4"
  have g4: "\<And>k. k \<in> set [''avg'', ''sum'', ''min'', ''max''] \<Longrightarrow> obj_get ?r4 k = obj_get r k"
    by (simp only: obj_get_obj_set obj_get_obj_delete if_distrib [of "\<lambda>x. obj_get x _"] cong: if_cong) auto
  have a4: "obj_get ?r4 ''avg'' = obj_get r ''avg''" by (rule g4) simp
  have g5: "obj_get ?r5 op = (if op = ''avg'' \<and> isNumber (obj_get r ''avg'')
            then roundDecimal (obj_get r ''avg'') p else obj_get r op)"
    unfolding a4 using g4 [OF assms] by (simp add: obj_get_obj_set del: obj_set.simps)
  have "formatRow g p r = fold defaultOperator [''avg'', ''sum'', ''min'', ''max''] ?r5"
    by (simp only: formatRow_def Let_def)
  then show ?thesis using assms
    by (simp only: obj_get_fold_defaultOperator g5) simp
qed


lemma round_error: "\<bar>of_int (round (x * 10 ^ p)) / 10 ^ p - x\<bar> \<le> 1 / (2 * 10 ^ p)" for x :: rat
proof -
  define y where "y = x * 10 ^ p"
  have a: "\<bar>of_int (round y) - y\<bar> \<le> 1 / 2"
    by (rule of_int_round_abs_le)
  have b: "of_int (round y) / 10 ^ p - x = (of_int (round y) - y) / 10 ^ p"
    unfolding y_def by (simp add: diff_divide_distrib)
  have "\<bar>of_int (round y) / 10 ^ p - x\<bar> = \<bar>of_int (round y) - y\<bar> / 10 ^ p"
    unfolding b by simp
  also have "\<dots> \<le> (1 / 2) / 10 ^ p"
    using a by (rule divide_right_mono) simp
  finally show ?thesis unfolding y_def by simp
qed

lemma performAggregationQuery_results:
  assumes "performAggregationQuery e qb schemaOpt groupBy field precisionOpt fs pc oc = Inr m"
  shows "\<exists>q queryResults. run e q = Inr queryResults
           \<and> results m = map (formatRow groupBy (case precisionOpt of None \<Rightarrow> 2 | Some n \<Rightarrow> n)) queryResults"
  using assms
  by (auto simp: performAggregationQuery_def Let_def
      split: option.splits sum.splits list.splits if_splits) blast+

section \<open>Properties of the history planner\<close>














lemma compact_two:
  "set (compact [Some tf, sf]) = {k. k \<noteq> [] \<and> (k = tf \<or> Some k = sf)}"
  by (auto simp: compact_def split: option.splits if_splits)


lemma checkFilters_keys: "checkFilters fs = None \<Longrightarrow> k \<in> set (map fst fs) \<Longrightarrow> k \<noteq> []"
  by (auto simp: checkFilters_def list_all_iff split: if_splits)


lemma not_plainKey_value: "\<not> plainKey (k @ ''.value'')"
  by (simp add: plainKey_def)

lemma valueIsUndefined_plain:
  assumes "list_all plainKey (map fst fs)" and "map_of fs k = Some f"
  shows "valueIsUndefined fs k = isUndefined (rawValue f)"
proof -
  from assms(2) have "k \<in> set (map fst fs)"
    by (metis map_of_eq_None_iff option.distinct(1) set_map)
  with assms(1) have pk: "plainKey k" unfolding list_all_iff by blast
  have "k @ ''.value'' \<notin> set (map fst fs)"
  proof
    assume "k @ ''.value'' \<in> set (map fst fs)"
    with assms(1) have "plainKey (k @ ''.value'')" unfolding list_all_iff by blast
    with not_plainKey_value show False by blast
  qed
  with pk assms(2) show ?thesis by (simp add: valueIsUndefined_def)
qed

lemma not_useOnly_iff:
  assumes "checkFilters fs = None" and "list_all plainKey (map fst fs)"
  shows "\<not> useOnlyNonTimeRestrictedFilters tf sf fs \<longleftrightarrow>
           (\<exists>k f. map_of fs k = Some f \<and> k \<noteq> tf \<and> Some k \<noteq> sf \<and> \<not> isUndefined (rawValue f))"
proof -
  have keys: "\<And>k. k \<in> set (map fst fs) \<Longrightarrow>
          (k \<notin> set (compact [Some tf, sf])) = (k \<noteq> tf \<and> Some k \<noteq> sf)"
    using checkFilters_keys [OF assms(1)] unfolding compact_two by blast
  have "\<not> useOnlyNonTimeRestrictedFilters tf sf fs \<longleftrightarrow>
          (\<exists>k \<in> set (map fst fs). k \<noteq> tf \<and> Some k \<noteq> sf \<and> \<not> valueIsUndefined fs k)"
    using keys
    unfolding useOnlyNonTimeRestrictedFilters_def timeRestrictedFilterKeys_def list_all_iff
    by auto
  also have "\<dots> \<longleftrightarrow>
          (\<exists>k f. map_of fs k = Some f \<and> k \<noteq> tf \<and> Some k \<noteq> sf \<and> \<not> isUndefined (rawValue f))"
  proof
    assume "\<exists>k \<in> set (map fst fs). k \<noteq> tf \<and> Some k \<noteq> sf \<and> \<not> valueIsUndefined fs k"
    then obtain k where k: "k \<in> set (map fst fs)" "k \<noteq> tf" "Some k \<noteq> sf"
      "\<not> valueIsUndefined fs k" by blast
    from k(1) obtain f where f: "map_of fs k = Some f"
      by (metis map_of_eq_None_iff not_Some_eq set_map)
    from k(4) valueIsUndefined_plain [OF assms(2) f] have "\<not> isUndefined (rawValue f)" by simp
    with f k show "\<exists>k f. map_of fs k = Some f \<and> k \<noteq> tf \<and> Some k \<noteq> sf \<and> \<not> isUndefined (rawValue f)"
      by blast
  next
    assume "\<exists>k f. map_of fs k = Some f \<and> k \<noteq> tf \<and> Some k \<noteq> sf \<and> \<not> isUndefined (rawValue f)"
    then obtain k f where f: "map_of fs k = Some f" "k \<noteq> tf" "Some k \<noteq> sf"
      "\<not> isUndefined (rawValue f)" by blast
    from f(1) have "k \<in> set (map fst fs)"
      by (metis map_of_eq_None_iff option.distinct(1) set_map)
    moreover from f(4) valueIsUndefined_plain [OF assms(2) f(1)] have "\<not> valueIsUndefined fs k"
      by simp
    ultimately show "\<exists>k \<in> set (map fst fs). k \<noteq> tf \<and> Some k \<noteq> sf \<and> \<not> valueIsUndefined fs k"
      using f by blast
  qed
  finally show ?thesis .
qed


lemma retentionGuard_cases:
  "retentionGuard tf sf limit fs =
     (case checkFilters fs of
        Some err \<Rightarrow> Inl err
      | None \<Rightarrow>
          (case map_of fs tf of
             None \<Rightarrow> Inl (TypeError [Lit ''Cannot read property value of undefined''])
           | Some flt \<Rightarrow>
               if truthy (getMinRangeValue (rawValue flt))
                  \<and> js_lt (getMinRangeValue (rawValue flt)) (JStr limit)
                  \<and> \<not> useOnlyNonTimeRestrictedFilters tf sf fs
               then Inl (HttpError 400 [Lit ''All filters are disabled before '', Val (JStr limit)])
               else Inr (useOnlyNonTimeRestrictedFilters tf sf fs)))"
  by (simp add: retentionGuard_def Let_def split: option.splits)













lemma perform_guard_error:
  "checkOrderConfig oc = None \<Longrightarrow>
   retentionGuard (case tfo of None \<Rightarrow> ''createdDate'' | Some s \<Rightarrow> s) sf limit filters = Inl err \<Longrightarrow>
     performHistoryQuery e qb schema table tfo tco sf gvo limit groupBy (Some filters) pc oc
       = (Inl err, Some filters)"
  by (simp add: performHistoryQuery_def Let_def)

lemma perform_after_guard:
  assumes "checkOrderConfig oc = None"
    and "(case fs of None \<Rightarrow> Inr True
          | Some filters \<Rightarrow>
              retentionGuard (case tfo of None \<Rightarrow> ''createdDate'' | Some s \<Rightarrow> s) sf limit filters)
         = Inr useOnly"
  shows "performHistoryQuery e qb schema table tfo tco sf gvo limit groupBy fs pc oc =
     (case checkPaginationConfig pc of
        Some err \<Rightarrow> (Inl err, fs)
      | None \<Rightarrow>
          if groupBy \<notin> set [''hour'', ''day'', ''month''] then
            (Inl (Error [Lit ''Invalid groupBy value: '', Val (JStr groupBy)]), fs)
          else
            (case historyQuery e qb schema table
                    (case tfo of None \<Rightarrow> ''createdDate'' | Some s \<Rightarrow> s)
                    (case tco of None \<Rightarrow> ''createdTimestamp'' | Some s \<Rightarrow> s) sf
                    (case gvo of None \<Rightarrow> [] | Some v \<Rightarrow> v) groupBy useOnly fs oc of
               (Inl err, fs') \<Rightarrow> (Inl err, fs')
             | (Inr q, fs') \<Rightarrow>
                 (case run e q of
                    Inl x \<Rightarrow> (Inl (Thrown x), fs')
                  | Inr allResults \<Rightarrow>
                      (Inr ((getPaginationMeta (JNum (of_nat (length allResults)))
                               (nbResultsPerPage pc) (page pc))
                              \<lparr>results := js_slice allResults ((page pc - 1) * nbResultsPerPage pc)
                                            (page pc * nbResultsPerPage pc)\<rparr>),
                       fs'))))"
  using assms by (simp add: performHistoryQuery_def Let_def)





lemma map_of_obj_set: "map_of (obj_set fs k v) k' = (if k' = k then Some v else map_of fs k')"
  by (induction fs) auto




lemma map_of_zip_upt:
  "map_of (zip ks [m..<m + length ks]) k = Some a \<Longrightarrow>
     m \<le> a \<and> a < m + length ks \<and> ks ! (a - m) = k \<and> (\<forall>j < a - m. ks ! j \<noteq> k)"
proof (induction ks arbitrary: m)
  case Nil
  then show ?case by simp
next
  case (Cons k' ks)
  have u: "[m..<m + length (k' # ks)] = m # [Suc m..<Suc m + length ks]"
    by (subst upt_rec) simp
  show ?case
  proof (cases "k' = k")
    case True
    with Cons.prems show ?thesis unfolding u by simp
  next
    case False
    with Cons.prems have "map_of (zip ks [Suc m..<Suc m + length ks]) k = Some a"
      unfolding u by simp
    from Cons.IH [OF this]
    have a: "Suc m \<le> a" "a < Suc m + length ks" "ks ! (a - Suc m) = k"
      and n: "\<forall>j < a - Suc m. ks ! j \<noteq> k"
      by simp_all
    from a have d: "a - m = Suc (a - Suc m)" by simp
    have "\<forall>j < a - m. (k' # ks) ! j \<noteq> k"
    proof (intro allI impI)
      fix j
      assume "j < a - m"
      then show "(k' # ks) ! j \<noteq> k" using False n d by (cases j) auto
    qed
    with a d show ?thesis by simp
  qed
qed

lemma first_key_update:
  "a < length fs \<Longrightarrow> fst (fs ! a) = k \<Longrightarrow> \<forall>j < a. fst (fs ! j) \<noteq> k \<Longrightarrow>
     fs[a := (k, x)] = obj_set fs k x \<and> map_of fs k = Some (snd (fs ! a))"
proof (induction fs arbitrary: a)
  case Nil
  then show ?case by simp
next
  case (Cons kf fs)
  obtain k' f where kf: "kf = (k', f)" by (cases kf)
  show ?case
  proof (cases a)
    case 0
    with Cons.prems show ?thesis by (simp add: kf)
  next
    case (Suc b)
    from Cons.prems(3) Suc have ne: "k' \<noteq> k" by (auto simp: kf)
    have "\<forall>j < b. fst (fs ! j) \<noteq> k"
    proof (intro allI impI)
      fix j
      assume "j < b"
      then have "Suc j < a" using Suc by simp
      with Cons.prems(3) have "fst ((kf # fs) ! Suc j) \<noteq> k" by blast
      then show "fst (fs ! j) \<noteq> k" by simp
    qed
    with Cons.IH [of b] Cons.prems(1,2) Suc ne show ?thesis by (simp add: kf)
  qed
qed

lemma deref_specRefs_update:
  assumes "a < length fs"
  shows "deref (specRefs fs) ((specStore fs)[a := x]) = fs[a := (fst (fs ! a), x)]"
proof (rule nth_equalityI)
  show "length (deref (specRefs fs) ((specStore fs)[a := x])) = length (fs[a := (fst (fs ! a), x)])"
    by (simp add: deref_def specRefs_def)
next
  fix i
  assume "i < length (deref (specRefs fs) ((specStore fs)[a := x]))"
  then have i: "i < length fs" by (simp add: deref_def specRefs_def)
  then have "deref (specRefs fs) ((specStore fs)[a := x]) ! i
               = (fst (fs ! i), ((specStore fs)[a := x]) ! i)"
    by (simp add: deref_def specRefs_def)
  also have "\<dots> = fs[a := (fst (fs ! a), x)] ! i"
    using i assms by (cases "i = a") (simp_all add: specStore_def)
  finally show "deref (specRefs fs) ((specStore fs)[a := x]) ! i = fs[a := (fst (fs ! a), x)] ! i" .
qed

lemma map_of_pick_first: "map_of (pick refs [k, k2]) k = map_of refs k"
  by (auto simp: pick_def obj_get_obj_set map_of_obj_set split: option.splits)

lemma obj_set_keys: "fst ` set (obj_set acc k v) \<subseteq> insert k (fst ` set acc)"
  by (induction acc) (force split: if_splits)+

lemma pick_keys: "fst ` set (pick obj ks) \<subseteq> set ks"
proof -
  have "\<And>acc. fst ` set (fold (\<lambda>k acc. case map_of obj k of None \<Rightarrow> acc
                                          | Some v \<Rightarrow> obj_set acc k v) ks acc)
               \<subseteq> fst ` set acc \<union> set ks"
  proof (induction ks)
    case Nil
    show ?case by simp
  next
    case (Cons k ks)
    note s = obj_set_keys [of acc k]
    show ?case
    proof (cases "map_of obj k")
      case None
      with Cons [of acc] show ?thesis by auto
    next
      case (Some v)
      with Cons [of "obj_set acc k v"] s [of v] show ?thesis by auto
    qed
  qed
  from this [of "[]"] show ?thesis by (simp add: pick_def)
qed

lemma map_fst_obj_set: "map_of fs k = Some x \<Longrightarrow> map fst (obj_set fs k v) = map fst fs"
  by (induction fs) (auto split: if_splits)

text \<open>
  Written through the picked mapping, the new \<open>dbField\<close> is read through the caller's:
  the caller's mapping is left with the time filter's specification replaced. The
  picked mapping has no other keys than the two filter names.
\<close>

lemma narrowFilters_aggregate:
  assumes "map_of fs tf = Some flt"
  shows "snd (narrowFilters True tf sf groupBy fs) = obj_set fs tf (flt\<lparr>dbField := JStr groupBy\<rparr>)
       \<and> (\<exists>newFilters. fst (narrowFilters True tf sf groupBy fs) = Inr newFilters
             \<and> fst ` set newFilters
                 \<subseteq> {tf, (case sf of None \<Rightarrow> ''undefined'' | Some s \<Rightarrow> s)})"
proof -
  from assms have "tf \<in> set (map fst fs)" by (force dest: map_of_SomeD)
  then obtain a where a: "map_of (specRefs fs) tf = Some a"
    unfolding specRefs_def using map_of_zip_is_Some [of "map fst fs" "[0..<length fs]" tf]
    by auto
  then have "map_of (zip (map fst fs) [0..<0 + length (map fst fs)]) tf = Some a"
    by (simp add: specRefs_def)
  note z = map_of_zip_upt [OF this]
  have b1: "a < length fs" using z by simp
  from z have "map fst fs ! a = tf" by simp
  then have b2: "fst (fs ! a) = tf" unfolding nth_map [OF b1] .
  have b3: "\<forall>j < a. fst (fs ! j) \<noteq> tf"
  proof (intro allI impI)
    fix j
    assume j: "j < a"
    then have "j < length fs" using b1 by simp
    then have "map fst fs ! j = fst (fs ! j)" by (rule nth_map)
    moreover from z j have "map fst fs ! j \<noteq> tf" by auto
    ultimately show "fst (fs ! j) \<noteq> tf" by simp
  qed
  note b = b1 b2 b3
  from first_key_update [OF b]
  have u: "\<And>x. fs[a := (tf, x)] = obj_set fs tf x" and l: "map_of fs tf = Some (snd (fs ! a))"
    by simp_all
  from l assms b(1) have s: "specStore fs ! a = flt" by (simp add: specStore_def)
  let ?ks = "[tf, (case sf of None \<Rightarrow> ''undefined'' | Some s \<Rightarrow> s)]"
  have p: "map_of (pick (specRefs fs) ?ks) tf = Some a"
    by (simp add: map_of_pick_first a)
  have k: "\<And>store. fst ` set (deref (pick (specRefs fs) ?ks) store) \<subseteq> set ?ks"
  proof -
    fix store
    have "fst ` set (deref (pick (specRefs fs) ?ks) store) = fst ` set (pick (specRefs fs) ?ks)"
      by (force simp: deref_def)
    with pick_keys [of "specRefs fs" ?ks] show "fst ` set (deref (pick (specRefs fs) ?ks) store) \<subseteq> set ?ks"
      by simp
  qed
  have k': "\<And>store. fst ` set (deref (pick (specRefs fs) ?ks) store)
             \<subseteq> {tf, (case sf of None \<Rightarrow> ''undefined'' | Some s \<Rightarrow> s)}"
    using k by simp
  show ?thesis
    by (simp add: narrowFilters_def Let_def p s deref_specRefs_update [OF b(1)] b(2) u k')
qed

text \<open>
  \<open>writeBack\<close> keeps the keys, the entries it was not run for, and in every
  specification the fields other than the raw and the default value.
\<close>

lemma writeBack_Cons:
  "writeBack pav tvs (kf # applied) callers =
     writeBack pav tvs applied
       (case map_of callers (fst kf) of
          None \<Rightarrow> callers
        | Some flt \<Rightarrow>
            obj_set callers (fst kf)
              (writeBackSpec (normalizedOrigin pav (snd kf)) (obj_get tvs (fst kf)) flt))"
  by (simp add: writeBack_def)

lemma writeBack_Nil: "writeBack pav tvs [] callers = callers"
  by (simp add: writeBack_def)

lemma writeBack_keys: "map fst (writeBack pav tvs applied callers) = map fst callers"
proof (induction applied arbitrary: callers)
  case Nil
  show ?case by (simp add: writeBack_Nil)
next
  case (Cons kf applied)
  show ?case
  proof (cases "map_of callers (fst kf)")
    case None
    with Cons show ?thesis by (simp add: writeBack_Cons)
  next
    case (Some flt)
    with Cons map_fst_obj_set [OF Some] show ?thesis by (simp add: writeBack_Cons)
  qed
qed

lemma writeBack_other:
  "k \<notin> fst ` set applied \<Longrightarrow> map_of (writeBack pav tvs applied callers) k = map_of callers k"
proof (induction applied arbitrary: callers)
  case Nil
  show ?case by (simp add: writeBack_Nil)
next
  case (Cons kf applied)
  from Cons.prems have ne: "k \<noteq> fst kf" and r: "k \<notin> fst ` set applied" by auto
  show ?case
  proof (cases "map_of callers (fst kf)")
    case None
    with Cons.IH [OF r] show ?thesis by (simp add: writeBack_Cons)
  next
    case (Some flt)
    with Cons.IH [OF r] ne show ?thesis by (simp add: writeBack_Cons map_of_obj_set)
  qed
qed

lemma writeBackSpec_config:
  "dbField (writeBackSpec og v flt) = dbField flt
   \<and> minValue (writeBackSpec og v flt) = minValue flt
   \<and> transformValue (writeBackSpec og v flt) = transformValue flt
   \<and> query (writeBackSpec og v flt) = query flt"
  by (cases og) (simp_all add: writeBackSpec_def)

lemma writeBack_config:
  "map_of callers k = Some f \<Longrightarrow>
     \<exists>f'. map_of (writeBack pav tvs applied callers) k = Some f'
        \<and> dbField f' = dbField f \<and> minValue f' = minValue f
        \<and> transformValue f' = transformValue f \<and> query f' = query f"
proof (induction applied arbitrary: callers f)
  case Nil
  then show ?case by (simp add: writeBack_Nil)
next
  case (Cons kf applied)
  show ?case
  proof (cases "map_of callers (fst kf)")
    case None
    with Cons.IH [OF Cons.prems] show ?thesis by (simp add: writeBack_Cons)
  next
    case (Some flt)
    let ?w = "writeBackSpec (normalizedOrigin pav (snd kf)) (obj_get tvs (fst kf)) flt"
    show ?thesis
    proof (cases "k = fst kf")
      case True
      with Some Cons.prems have ff: "flt = f" by simp
      have m: "map_of (obj_set callers (fst kf) ?w) k = Some ?w"
        using True by (simp add: map_of_obj_set)
      from Cons.IH [OF m] obtain f' where
        f': "map_of (writeBack pav tvs applied (obj_set callers (fst kf) ?w)) k = Some f'"
          "dbField f' = dbField ?w" "minValue f' = minValue ?w"
          "transformValue f' = transformValue ?w" "query f' = query ?w"
        by blast
      have w: "writeBack pav tvs (kf # applied) callers
                 = writeBack pav tvs applied (obj_set callers (fst kf) ?w)"
        by (simp add: writeBack_Cons Some)
      from f' writeBackSpec_config [of "normalizedOrigin pav (snd kf)" "obj_get tvs (fst kf)" flt]
      show ?thesis unfolding w ff by simp
    next
      case False
      then have m: "map_of (obj_set callers (fst kf) ?w) k = Some f"
        using Cons.prems by (simp add: map_of_obj_set)
      have w: "writeBack pav tvs (kf # applied) callers
                 = writeBack pav tvs applied (obj_set callers (fst kf) ?w)"
        by (simp add: writeBack_Cons Some)
      from Cons.IH [OF m] show ?thesis unfolding w .
    qed
  qed
qed

lemma applyFiltersShared_snd:
  "snd (applyFiltersShared e qb fs callers) = callers
   \<or> (\<exists>tvs. snd (applyFiltersShared e qb fs callers) = writeBack (parseArrayValues e) tvs fs callers)"
  by (simp add: applyFiltersShared_def Let_def split: sum.splits option.splits) blast

lemma historyQuery_aggregate_filters:
  assumes "useOnly" and "truthy (obj_get views groupBy)" and "map_of filters tf = Some flt"
  shows "\<exists>filters' flt'.
           snd (historyQuery e qb schema table tf tc sf views groupBy useOnly (Some filters) oc)
             = Some filters'
         \<and> map fst filters' = map fst filters
         \<and> map_of filters' tf = Some flt'
         \<and> dbField flt' = JStr groupBy \<and> minValue flt' = minValue flt
         \<and> transformValue flt' = transformValue flt \<and> query flt' = query flt
         \<and> (\<forall>k. k \<noteq> tf \<and> k \<noteq> (case sf of None \<Rightarrow> ''undefined'' | Some s \<Rightarrow> s)
                \<longrightarrow> map_of filters' k = map_of filters k)"
proof -
  let ?sfk = "case sf of None \<Rightarrow> ''undefined'' | Some s \<Rightarrow> s"
  let ?fs' = "obj_set filters tf (flt\<lparr>dbField := JStr groupBy\<rparr>)"
  from narrowFilters_aggregate [OF assms(3), of sf groupBy]
  obtain newFilters where nf: "narrowFilters True tf sf groupBy filters = (Inr newFilters, ?fs')"
    and keys: "fst ` set newFilters \<subseteq> {tf, ?sfk}"
    by (cases "narrowFilters True tf sf groupBy filters") auto
  let ?qb2 = "historyBase qb schema table tc sf (obj_get views groupBy) groupBy True"
  let ?c = "snd (applyFiltersShared e ?qb2 newFilters ?fs')"
  have h: "snd (historyQuery e qb schema table tf tc sf views groupBy useOnly (Some filters) oc)
             = Some ?c"
    using nf assms(1,2) by (simp add: historyQuery_def Let_def split: prod.splits sum.splits)
  have k0: "map fst ?fs' = map fst filters" by (rule map_fst_obj_set [OF assms(3)])
  have t0: "map_of ?fs' tf = Some (flt\<lparr>dbField := JStr groupBy\<rparr>)" by (simp add: map_of_obj_set)
  have o0: "\<And>k. k \<noteq> tf \<Longrightarrow> map_of ?fs' k = map_of filters k" by (simp add: map_of_obj_set)
  have "map fst ?c = map fst filters
      \<and> (\<exists>flt'. map_of ?c tf = Some flt'
            \<and> dbField flt' = JStr groupBy \<and> minValue flt' = minValue flt
            \<and> transformValue flt' = transformValue flt \<and> query flt' = query flt)
      \<and> (\<forall>k. k \<noteq> tf \<and> k \<noteq> ?sfk \<longrightarrow> map_of ?c k = map_of filters k)"
  proof -
    from applyFiltersShared_snd [of e ?qb2 newFilters ?fs']
    consider (same) "?c = ?fs'"
      | (written) tvs where "?c = writeBack (parseArrayValues e) tvs newFilters ?fs'"
      by blast
    then show ?thesis
    proof cases
      case same
      show ?thesis unfolding same using k0 t0 o0 by simp
    next
      case written
      have a: "map fst ?c = map fst filters" unfolding written writeBack_keys by (rule k0)
      from writeBack_config [OF t0, of "parseArrayValues e" tvs newFilters]
      have b: "\<exists>flt'. map_of ?c tf = Some flt'
            \<and> dbField flt' = JStr groupBy \<and> minValue flt' = minValue flt
            \<and> transformValue flt' = transformValue flt \<and> query flt' = query flt"
        unfolding written by simp
      have c: "\<forall>k. k \<noteq> tf \<and> k \<noteq> ?sfk \<longrightarrow> map_of ?c k = map_of filters k"
      proof (intro allI impI)
        fix k
        assume k: "k \<noteq> tf \<and> k \<noteq> ?sfk"
        with keys have "k \<notin> fst ` set newFilters" by blast
        from writeBack_other [OF this] have "map_of ?c k = map_of ?fs' k" unfolding written .
        with o0 [of k] k show "map_of ?c k = map_of filters k" by simp
      qed
      from a b c show ?thesis by blast
    qed
  qed
  with h show ?thesis by blast
qed

lemma js_lt_undefined: "js_lt a JUndefined = False"
  by (cases a) (simp_all add: js_lt_def split: option.splits)


lemma perform_snd_history:
  assumes "checkOrderConfig oc = None"
    and "(case fs of None \<Rightarrow> Inr True
          | Some filters \<Rightarrow>
              retentionGuard (case tfo of None \<Rightarrow> ''createdDate'' | Some s \<Rightarrow> s) sf limit filters)
         = Inr useOnly"
    and "checkPaginationConfig pc = None"
    and "groupBy \<in> set [''hour'', ''day'', ''month'']"
  shows "snd (performHistoryQuery e qb schema table tfo tco sf gvo limit groupBy fs pc oc)
       = snd (historyQuery e qb schema table
                (case tfo of None \<Rightarrow> ''createdDate'' | Some s \<Rightarrow> s)
                (case tco of None \<Rightarrow> ''createdTimestamp'' | Some s \<Rightarrow> s) sf
                (case gvo of None \<Rightarrow> [] | Some v \<Rightarrow> v) groupBy useOnly fs oc)"
proof -
  let ?h = "historyQuery e qb schema table
                (case tfo of None \<Rightarrow> ''createdDate'' | Some s \<Rightarrow> s)
                (case tco of None \<Rightarrow> ''createdTimestamp'' | Some s \<Rightarrow> s) sf
                (case gvo of None \<Rightarrow> [] | Some v \<Rightarrow> v) groupBy useOnly fs oc"
  obtain r fs' where h: "?h = (r, fs')" by (cases ?h)
  show ?thesis
  proof (cases r)
    case (Inl err)
    with h assms(3,4) show ?thesis unfolding perform_after_guard [OF assms(1,2)] by simp
  next
    case (Inr q)
    with h assms(3,4) show ?thesis unfolding perform_after_guard [OF assms(1,2)]
      by (simp split: sum.splits)
  qed
qed

section \<open>The claims\<close>



text \<open>
  C1. The guard of the minimum bound tests the lower bound for truthiness before it
  compares it: the range \<open>{ gte: 0 }\<close> under \<open>minValue: 10\<close> has the lower bound \<open>0\<close>, which
  is strictly less than \<open>10\<close>, and yet the run throws nothing; it emits no predicate
  either, and leaves the range as it was.
\<close>

theorem zero_lower_bound_passes_minValue:
  "getTransformedValues (\<lambda>v. Inr v)
     [(''price'', (rangeFilter ''price'' (JObj [(''gte'', JNum 0)]) (JNum 10)))]
     = Inr [(''price'', JObj [(''gte'', JNum 0)])]
   \<and> getMinRangeValue (JObj [(''gte'', JNum 0)]) = JNum 0
   \<and> js_lt (JNum 0) (JNum 10)
   \<and> addFiltersToQueryBuilder []
        [(''price'', (rangeFilter ''price'' (JObj [(''gte'', JNum 0)]) (JNum 10)))]
        [(''price'', JObj [(''gte'', JNum 0)])]
      = \<lparr>thrown = None, builder = [], normalized = [(''price'', JObj [(''gte'', JNum 0)])]\<rparr>"
  by (simp add: getTransformedValues_def transformedValue_def isUndefined_def js_lt_def
      addFilter_def checkRangeFilter_def rangeWheres_def boundWhere_def Let_def)

text \<open>
  C2. A range filter with a column, on a range object whose bounds are comparable with
  the filter's \<open>minValue\<close>, is rejected by the minimum guard exactly when the lower bound
  of the range object is truthy and less than \<open>minValue\<close>: the 400 error is thrown and
  the builder and the normalized values are left as they are, so that truthy bound
  gets no predicate. In every other case, and in particular whenever the filter has no
  \<open>minValue\<close>, nothing is thrown and the filter is compiled: the calls appended to the
  builder are comparison predicates on the filter's column, one for each of the bounds
  \<open>lt\<close>, \<open>lte\<close>, \<open>gt\<close>, \<open>gte\<close> of the range object whose value is truthy, with the operator
  of that bound, and no other call; each at most once, so at most four. The range object
  read is the one in flight, after a missing lower bound was defaulted. A bound that is
  \<open>0\<close> or \<open>false\<close> is not truthy and gives no predicate.
\<close>

theorem range_predicates_unless_below_minimum:
  assumes "query flt = SString ''range''" and "truthy (dbField flt)"
    and "obj_get tvs key = JObj rng"
    and "comparableBounds (JObj rng) (minValue flt)"
  shows "(truthy (getMinRangeValue (JObj rng))
            \<and> js_lt (getMinRangeValue (JObj rng)) (minValue flt)
          \<longrightarrow> addFilter qb key flt tvs
                = \<lparr>thrown = Some (HttpError 400
                      [Val (JStr key), Lit '' value cannot be lower than '', Val (minValue flt)]),
                   builder = qb, normalized = tvs\<rparr>)
       \<and> (\<not> (truthy (getMinRangeValue (JObj rng))
               \<and> js_lt (getMinRangeValue (JObj rng)) (minValue flt))
          \<longrightarrow> thrown (addFilter qb key flt tvs) = None
            \<and> (\<exists>ws compiled.
                  builder (addFilter qb key flt tvs) = qb @ ws
                \<and> obj_get (normalized (addFilter qb key flt tvs)) key = JObj compiled
                \<and> compiled = (if isUndefined (obj_get rng ''gt'') \<and> isUndefined (obj_get rng ''gte'')
                               then obj_set rng ''gte'' (minValue flt) else rng)
                \<and> (\<forall>w. w \<in> set ws \<longleftrightarrow>
                      (\<exists>b op. (b, op) \<in> set [(''lt'', ''<''), (''lte'', ''<=''),
                                               (''gt'', ''>''), (''gte'', ''>='')]
                         \<and> truthy (obj_get compiled b)
                         \<and> w = QWhereOp (dbField flt) op (obj_get compiled b)))
                \<and> (\<forall>b op. obj_get compiled b = JNum 0 \<or> obj_get compiled b = JBool False
                      \<longrightarrow> QWhereOp (dbField flt) op (obj_get compiled b) \<notin> set ws)
                \<and> distinct ws \<and> length ws \<le> 4))
       \<and> (minValue flt = JUndefined \<longrightarrow> thrown (addFilter qb key flt tvs) = None)"
proof (intro conjI impI)
  let ?g = "truthy (getMinRangeValue (JObj rng))
            \<and> js_lt (getMinRangeValue (JObj rng)) (minValue flt)"
  note eq = addFilter_range_obj [OF assms(1,2,3), of qb]
  {
    assume g: ?g
    show "addFilter qb key flt tvs
            = \<lparr>thrown = Some (HttpError 400
                  [Val (JStr key), Lit '' value cannot be lower than '', Val (minValue flt)]),
               builder = qb, normalized = tvs\<rparr>"
      unfolding eq using g by (simp del: getMinRangeValue.simps)
  }
  {
    assume ng: "\<not> ?g"
    let ?c = "if isUndefined (obj_get rng ''gt'') \<and> isUndefined (obj_get rng ''gte'')
              then obj_set rng ''gte'' (minValue flt) else rng"
    let ?ws = "boundWhere (dbField flt) ''<'' (obj_get ?c ''lt'')
               @ boundWhere (dbField flt) ''<='' (obj_get ?c ''lte'')
               @ boundWhere (dbField flt) ''>'' (obj_get ?c ''gt'')
               @ boundWhere (dbField flt) ''>='' (obj_get ?c ''gte'')"
    have r: "addFilter qb key flt tvs =
               \<lparr>thrown = None, builder = qb @ ?ws, normalized = obj_set tvs key (JObj ?c)\<rparr>"
      unfolding eq using ng by (simp add: Let_def del: getMinRangeValue.simps)
    show "thrown (addFilter qb key flt tvs) = None" by (simp add: r)
    have b: "builder (addFilter qb key flt tvs) = qb @ ?ws" by (simp add: r)
    have n: "obj_get (normalized (addFilter qb key flt tvs)) key = JObj ?c"
      by (simp add: r obj_get_obj_set)
    have m: "\<forall>w. w \<in> set ?ws \<longleftrightarrow>
                 (\<exists>b op. (b, op) \<in> set [(''lt'', ''<''), (''lte'', ''<=''),
                                          (''gt'', ''>''), (''gte'', ''>='')]
                    \<and> truthy (obj_get ?c b) \<and> w = QWhereOp (dbField flt) op (obj_get ?c b))"
      using boundWheres_mem [of _ "dbField flt" ?c] by blast
    have z: "\<forall>b op. obj_get ?c b = JNum 0 \<or> obj_get ?c b = JBool False
                \<longrightarrow> QWhereOp (dbField flt) op (obj_get ?c b) \<notin> set ?ws"
    proof (intro allI impI)
      fix b op
      assume f: "obj_get ?c b = JNum 0 \<or> obj_get ?c b = JBool False"
      then have "\<not> truthy (obj_get ?c b)" by auto
      moreover have "\<And>v. QWhereOp (dbField flt) op v \<in> set ?ws \<Longrightarrow> truthy v"
        by (auto simp: boundWhere_def split: if_splits)
      ultimately show "QWhereOp (dbField flt) op (obj_get ?c b) \<notin> set ?ws" by blast
    qed
    have d: "distinct ?ws" by (rule boundWheres_distinct)
    have l: "length ?ws \<le> 4" by (rule boundWheres_length)
    from b n m z d l
    show "\<exists>ws compiled.
            builder (addFilter qb key flt tvs) = qb @ ws
          \<and> obj_get (normalized (addFilter qb key flt tvs)) key = JObj compiled
          \<and> compiled = (if isUndefined (obj_get rng ''gt'') \<and> isUndefined (obj_get rng ''gte'')
                         then obj_set rng ''gte'' (minValue flt) else rng)
          \<and> (\<forall>w. w \<in> set ws \<longleftrightarrow>
                (\<exists>b op. (b, op) \<in> set [(''lt'', ''<''), (''lte'', ''<=''),
                                         (''gt'', ''>''), (''gte'', ''>='')]
                   \<and> truthy (obj_get compiled b)
                   \<and> w = QWhereOp (dbField flt) op (obj_get compiled b)))
          \<and> (\<forall>b op. obj_get compiled b = JNum 0 \<or> obj_get compiled b = JBool False
                \<longrightarrow> QWhereOp (dbField flt) op (obj_get compiled b) \<notin> set ws)
          \<and> distinct ws \<and> length ws \<le> 4"
      by blast
  }
  {
    assume u: "minValue flt = JUndefined"
    show "thrown (addFilter qb key flt tvs) = None"
      unfolding eq u by (simp add: js_lt_undefined Let_def del: getMinRangeValue.simps)
  }
qed

theorem range_predicates_unless_below_minimum_witness:
  "query (rangeFilter ''price'' (JObj [(''gt'', JNum 5), (''lte'', JNum 0), (''lt'', JNum 50)]) (JNum 3))
     = SString ''range''
   \<and> truthy (dbField (rangeFilter ''price''
               (JObj [(''gt'', JNum 5), (''lte'', JNum 0), (''lt'', JNum 50)]) (JNum 3)))
   \<and> obj_get [(''price'', JObj [(''gt'', JNum 5), (''lte'', JNum 0), (''lt'', JNum 50)])] ''price''
       = JObj [(''gt'', JNum 5), (''lte'', JNum 0), (''lt'', JNum 50)]
   \<and> comparableBounds (JObj [(''gt'', JNum 5), (''lte'', JNum 0), (''lt'', JNum 50)]) (JNum 3)
   \<and> getMinRangeValue (JObj [(''gt'', JNum 5), (''lte'', JNum 0), (''lt'', JNum 50)]) = JNum 5
   \<and> \<not> js_lt (JNum 5) (JNum 3)
   \<and> addFilter [] ''price''
        (rangeFilter ''price'' (JObj [(''gt'', JNum 5), (''lte'', JNum 0), (''lt'', JNum 50)]) (JNum 3))
        [(''price'', JObj [(''gt'', JNum 5), (''lte'', JNum 0), (''lt'', JNum 50)])]
      = \<lparr>thrown = None,
         builder = [QWhereOp (JStr ''price'') ''<'' (JNum 50), QWhereOp (JStr ''price'') ''>'' (JNum 5)],
         normalized = [(''price'', JObj [(''gt'', JNum 5), (''lte'', JNum 0), (''lt'', JNum 50)])]\<rparr>"
  using range_predicates_unless_below_minimum
    [of "rangeFilter ''price'' (JObj [(''gt'', JNum 5), (''lte'', JNum 0), (''lt'', JNum 50)]) (JNum 3)"
        "[(''price'', JObj [(''gt'', JNum 5), (''lte'', JNum 0), (''lt'', JNum 50)])]" "''price''"
        "[(''gt'', JNum 5), (''lte'', JNum 0), (''lt'', JNum 50)]" "[]"]
  by (simp add: addFilter_def isUndefined_def checkRangeFilter_def rangeWheres_def
      boundWhere_def js_lt_def comparableBounds_def comparableScalars_def Let_def)

text \<open>
  A truthy bound does not always get its predicate: with the range \<open>{ gte: 5 }\<close> on a
  filter whose \<open>minValue\<close> is \<open>10\<close>, the bound \<open>gte\<close> is truthy, and the run throws the 400
  error of the minimum guard and appends nothing.
\<close>

theorem truthy_bound_below_minimum_gets_no_predicate:
  "getTransformedValues (\<lambda>v. Inr v)
     [(''price'', rangeFilter ''price'' (JObj [(''gte'', JNum 5)]) (JNum 10))]
     = Inr [(''price'', JObj [(''gte'', JNum 5)])]
   \<and> truthy (obj_get [(''gte'', JNum 5)] ''gte'')
   \<and> addFiltersToQueryBuilder []
        [(''price'', rangeFilter ''price'' (JObj [(''gte'', JNum 5)]) (JNum 10))]
        [(''price'', JObj [(''gte'', JNum 5)])]
      = \<lparr>thrown = Some (HttpError 400
                          [Val (JStr ''price''), Lit '' value cannot be lower than '',
                           Val (JNum 10)]),
         builder = [], normalized = [(''price'', JObj [(''gte'', JNum 5)])]\<rparr>"
  by (simp add: getTransformedValues_def transformedValue_def addFilter_def isUndefined_def
      checkRangeFilter_def js_lt_def Let_def)


text \<open>
  C4. A range filter on a range object that supplies neither \<open>gt\<close> nor \<open>gte\<close> is never
  rejected, and the range object in flight receives \<open>gte = minValue\<close> (its other
  properties unchanged) before the predicates are compiled from it: the predicate
  \<open>>= minValue\<close> is among the calls appended exactly when \<open>minValue\<close> is truthy. With
  \<open>minValue\<close> 10 and \<open>{ lt: 50 }\<close> the value becomes \<open>{ lt: 50, gte: 10 }\<close> and the calls
  are \<open>< 50\<close> and \<open>>= 10\<close>.
\<close>

theorem lower_bound_injected:
  assumes "query flt = SString ''range''" and "truthy (dbField flt)"
    and "obj_get tvs key = JObj rng"
    and "isUndefined (obj_get rng ''gt'')" and "isUndefined (obj_get rng ''gte'')"
  shows "thrown (addFilter qb key flt tvs) = None
       \<and> obj_get (normalized (addFilter qb key flt tvs)) key
           = JObj (obj_set rng ''gte'' (minValue flt))
       \<and> obj_get (obj_set rng ''gte'' (minValue flt)) ''gte'' = minValue flt
       \<and> (\<forall>k. k \<noteq> ''gte'' \<longrightarrow> obj_get (obj_set rng ''gte'' (minValue flt)) k = obj_get rng k)
       \<and> (\<exists>ws. builder (addFilter qb key flt tvs) = qb @ ws
             \<and> (\<forall>v. QWhereOp (dbField flt) ''>='' v \<in> set ws
                       \<longleftrightarrow> truthy (minValue flt) \<and> v = minValue flt))"
proof -
  let ?c = "obj_set rng ''gte'' (minValue flt)"
  let ?ws = "boundWhere (dbField flt) ''<'' (obj_get ?c ''lt'')
             @ boundWhere (dbField flt) ''<='' (obj_get ?c ''lte'')
             @ boundWhere (dbField flt) ''>'' (obj_get ?c ''gt'')
             @ boundWhere (dbField flt) ''>='' (obj_get ?c ''gte'')"
  have "getMinRangeValue (JObj rng) = JUndefined"
    using assms(4,5) by (rule getMinRangeValue_no_lower)
  then have r: "addFilter qb key flt tvs =
             \<lparr>thrown = None, builder = qb @ ?ws, normalized = obj_set tvs key (JObj ?c)\<rparr>"
    using assms(4,5) unfolding addFilter_range_obj [OF assms(1-3)]
    by (simp add: Let_def del: getMinRangeValue.simps)
  have w: "\<forall>v. QWhereOp (dbField flt) ''>='' v \<in> set ?ws
                  \<longleftrightarrow> truthy (minValue flt) \<and> v = minValue flt"
    by (auto simp: boundWhere_def obj_get_obj_set)
  have b: "builder (addFilter qb key flt tvs) = qb @ ?ws" by (simp add: r)
  from w b have e: "\<exists>ws. builder (addFilter qb key flt tvs) = qb @ ws
             \<and> (\<forall>v. QWhereOp (dbField flt) ''>='' v \<in> set ws
                       \<longleftrightarrow> truthy (minValue flt) \<and> v = minValue flt)"
    by blast
  show ?thesis using e by (simp add: r obj_get_obj_set)
qed

theorem lower_bound_injected_witness:
  "query (rangeFilter ''price'' (JObj [(''lt'', JNum 50)]) (JNum 10)) = SString ''range''
   \<and> truthy (dbField (rangeFilter ''price'' (JObj [(''lt'', JNum 50)]) (JNum 10)))
   \<and> obj_get [(''price'', JObj [(''lt'', JNum 50)])] ''price'' = JObj [(''lt'', JNum 50)]
   \<and> isUndefined (obj_get [(''lt'', JNum 50)] ''gt'')
   \<and> isUndefined (obj_get [(''lt'', JNum 50)] ''gte'')
   \<and> getTransformedValues (\<lambda>v. Inr v)
        [(''price'', rangeFilter ''price'' (JObj [(''lt'', JNum 50)]) (JNum 10))]
      = Inr [(''price'', JObj [(''lt'', JNum 50)])]
   \<and> addFiltersToQueryBuilder []
        [(''price'', rangeFilter ''price'' (JObj [(''lt'', JNum 50)]) (JNum 10))]
        [(''price'', JObj [(''lt'', JNum 50)])]
      = \<lparr>thrown = None,
         builder = [QWhereOp (JStr ''price'') ''<'' (JNum 50),
                    QWhereOp (JStr ''price'') ''>='' (JNum 10)],
         normalized = [(''price'', JObj [(''lt'', JNum 50), (''gte'', JNum 10)])]\<rparr>"
  using lower_bound_injected
    [of "rangeFilter ''price'' (JObj [(''lt'', JNum 50)]) (JNum 10)"
        "[(''price'', JObj [(''lt'', JNum 50)])]" "''price''" "[(''lt'', JNum 50)]" "[]"]
  by (simp add: addFilter_def isUndefined_def checkRangeFilter_def rangeWheres_def
      boundWhere_def js_lt_def getTransformedValues_def transformedValue_def Let_def)

text \<open>
  C6. A call of \<open>performAggregationQuery\<close> with \<open>field\<close> equal to \<open>groupBy\<close> that passes
  the shape validation of the order configuration, of the filters (when given) and of
  the pagination configuration fails with the 422 error
  \<open>field cannot be field and groupBy at the same time\<close>. The check comes after the three
  validations: when one of them fails, its error is the result, in that order. No query
  is built or run before: the result is the same whatever the storage and the builder
  are.
\<close>

theorem field_equal_groupBy_rejected:
  "(checkOrderConfig oc = None
      \<and> (case fs of None \<Rightarrow> None | Some filters \<Rightarrow> checkFilters filters) = None
      \<and> checkPaginationConfig pc = None
    \<longrightarrow> performAggregationQuery e qb schemaOpt groupBy (Some groupBy) precisionOpt fs pc oc
         = Inl (HttpError 422
                 [Val (JStr groupBy), Lit '' cannot be field and groupBy at the same time'']))
   \<and> (\<forall>err. checkOrderConfig oc = Some err
        \<longrightarrow> performAggregationQuery e qb schemaOpt groupBy (Some groupBy) precisionOpt fs pc oc = Inl err)
   \<and> (\<forall>err. checkOrderConfig oc = None
          \<and> (case fs of None \<Rightarrow> None | Some filters \<Rightarrow> checkFilters filters) = Some err
        \<longrightarrow> performAggregationQuery e qb schemaOpt groupBy (Some groupBy) precisionOpt fs pc oc = Inl err)
   \<and> (\<forall>err. checkOrderConfig oc = None
          \<and> (case fs of None \<Rightarrow> None | Some filters \<Rightarrow> checkFilters filters) = None
          \<and> checkPaginationConfig pc = Some err
        \<longrightarrow> performAggregationQuery e qb schemaOpt groupBy (Some groupBy) precisionOpt fs pc oc = Inl err)
   \<and> performAggregationQuery e qb schemaOpt groupBy (Some groupBy) precisionOpt fs pc oc
       = performAggregationQuery e' qb' schemaOpt groupBy (Some groupBy) precisionOpt fs pc oc"
  by (simp add: performAggregationQuery_def name_or_undefined_def Let_def split: option.splits)


theorem field_equal_groupBy_rejected_witness:
  "checkOrderConfig \<lparr>orderBy = JStr ''count'', order = JStr ''desc''\<rparr> = None
   \<and> (case Some [(''type'', equalityFilter ''type'' (JStr ''click''))] of
         None \<Rightarrow> None | Some filters \<Rightarrow> checkFilters filters) = None
   \<and> checkPaginationConfig \<lparr>page = 1, nbResultsPerPage = 20\<rparr> = None
   \<and> performAggregationQuery
        \<lparr>parseArrayValues = (\<lambda>v. Inr v), run = (\<lambda>q. Inl (JStr ''storage is down''))\<rparr>
        [] None ''data.score'' (Some ''data.score'') None
        (Some [(''type'', equalityFilter ''type'' (JStr ''click''))])
        \<lparr>page = 1, nbResultsPerPage = 20\<rparr> \<lparr>orderBy = JStr ''count'', order = JStr ''desc''\<rparr>
      = Inl (HttpError 422
              [Val (JStr ''data.score''), Lit '' cannot be field and groupBy at the same time''])"
  using field_equal_groupBy_rejected
    [of "\<lparr>orderBy = JStr ''count'', order = JStr ''desc''\<rparr>"
        "Some [(''type'', equalityFilter ''type'' (JStr ''click''))]"
        "\<lparr>page = 1, nbResultsPerPage = 20\<rparr>"
        "\<lparr>parseArrayValues = (\<lambda>v. Inr v), run = (\<lambda>q. Inl (JStr ''storage is down''))\<rparr>"
        "[]" None "''data.score''" None]
  by (simp add: checkOrderConfig_def checkFilters_def validFilterSpec_def isUndefined_def
      checkPaginationConfig_def)

text \<open>
  C7. When \<open>performAggregationQuery\<close> returns, its result rows are the rows the storage
  gave for the page query, one for one, and in each of them the four operator fields
  \<open>avg\<close>, \<open>sum\<close>, \<open>min\<close>, \<open>max\<close> are present with a value that is not \<open>undefined\<close>: \<open>null\<close>
  when the underlying row has none. An \<open>avg\<close> that is a number \<open>x\<close> becomes
  \<open>round (x * 10^p) / 10^p\<close> for \<open>p = avgPrecision\<close> (2 by default): a number with \<open>p\<close>
  decimal digits, at most half a unit of the last digit away from \<open>x\<close>.
\<close>

theorem aggregation_rows_operators:
  assumes "performAggregationQuery e qb schemaOpt groupBy field precisionOpt fs pc oc = Inr m"
  shows "\<exists>q queryResults.
           run e q = Inr queryResults
         \<and> length (results m) = length queryResults
         \<and> (\<forall>i < length queryResults. \<forall>op \<in> set [''avg'', ''sum'', ''min'', ''max''].
               op \<in> fst ` set (results m ! i)
             \<and> \<not> isUndefined (obj_get (results m ! i) op)
             \<and> (isUndefined (obj_get (queryResults ! i) op) \<longrightarrow> obj_get (results m ! i) op = JNull))
         \<and> (\<forall>i < length queryResults. \<forall>x. obj_get (queryResults ! i) ''avg'' = JNum x \<longrightarrow>
               obj_get (results m ! i) ''avg''
                 = JNum (of_int (round (x * 10 ^ (case precisionOpt of None \<Rightarrow> 2 | Some n \<Rightarrow> n)))
                         / 10 ^ (case precisionOpt of None \<Rightarrow> 2 | Some n \<Rightarrow> n))
             \<and> \<bar>of_int (round (x * 10 ^ (case precisionOpt of None \<Rightarrow> 2 | Some n \<Rightarrow> n)))
                  / 10 ^ (case precisionOpt of None \<Rightarrow> 2 | Some n \<Rightarrow> n) - x\<bar>
                 \<le> 1 / (2 * 10 ^ (case precisionOpt of None \<Rightarrow> 2 | Some n \<Rightarrow> n)))"
proof -
  let ?p = "case precisionOpt of None \<Rightarrow> 2 | Some n \<Rightarrow> n"
  from performAggregationQuery_results [OF assms]
  obtain q queryResults where q: "run e q = Inr queryResults"
    and r: "results m = map (formatRow groupBy ?p) queryResults"
    by blast
  have len: "length (results m) = length queryResults" by (simp add: r)
  have ops: "\<forall>i < length queryResults. \<forall>op \<in> set [''avg'', ''sum'', ''min'', ''max''].
               op \<in> fst ` set (results m ! i)
             \<and> \<not> isUndefined (obj_get (results m ! i) op)
             \<and> (isUndefined (obj_get (queryResults ! i) op) \<longrightarrow> obj_get (results m ! i) op = JNull)"
  proof (intro allI impI ballI)
    fix i op
    assume i: "i < length queryResults" and op: "op \<in> set [''avg'', ''sum'', ''min'', ''max'']"
    let ?r = "queryResults ! i"
    have ri: "results m ! i = formatRow groupBy ?p ?r" using i by (simp add: r)
    have d: "obj_get (formatRow groupBy ?p ?r) op \<noteq> JUndefined"
      unfolding formatRow_op [OF op] by (simp add: isUndefined_def)
    have n: "isUndefined (obj_get ?r op) \<Longrightarrow> obj_get (formatRow groupBy ?p ?r) op = JNull"
      unfolding formatRow_op [OF op] by (auto simp: isUndefined_def)
    show "op \<in> fst ` set (results m ! i)
             \<and> \<not> isUndefined (obj_get (results m ! i) op)
             \<and> (isUndefined (obj_get (queryResults ! i) op) \<longrightarrow> obj_get (results m ! i) op = JNull)"
      unfolding ri using d n obj_get_defined_key [OF d] by (simp add: isUndefined_def)
  qed
  have avg: "\<forall>i < length queryResults. \<forall>x. obj_get (queryResults ! i) ''avg'' = JNum x \<longrightarrow>
               obj_get (results m ! i) ''avg'' = JNum (of_int (round (x * 10 ^ ?p)) / 10 ^ ?p)
             \<and> \<bar>of_int (round (x * 10 ^ ?p)) / 10 ^ ?p - x\<bar> \<le> 1 / (2 * 10 ^ ?p)"
  proof (intro allI impI)
    fix i x
    assume i: "i < length queryResults" and x: "obj_get (queryResults ! i) ''avg'' = JNum x"
    have ri: "results m ! i = formatRow groupBy ?p (queryResults ! i)" using i by (simp add: r)
    have "obj_get (formatRow groupBy ?p (queryResults ! i)) ''avg'' = JNum (of_int (round (x * 10 ^ ?p)) / 10 ^ ?p)"
      by (simp add: formatRow_op x isUndefined_def)
    then show "obj_get (results m ! i) ''avg'' = JNum (of_int (round (x * 10 ^ ?p)) / 10 ^ ?p)
             \<and> \<bar>of_int (round (x * 10 ^ ?p)) / 10 ^ ?p - x\<bar> \<le> 1 / (2 * 10 ^ ?p)"
      unfolding ri using round_error [of x ?p] by simp
  qed
  from q len ops avg show ?thesis by blast
qed

theorem aggregation_rows_operators_witness:
  "performAggregationQuery
     \<lparr>parseArrayValues = (\<lambda>v. Inr v),
      run = (\<lambda>q. if last q = QCount then Inr [[(''count'', JStr ''1'')]]
                 else Inr [[(''groupByField'', JStr ''usr_1''), (''count'', JStr ''3''),
                            (''avg'', JNum (2456 / 1000))]])\<rparr>
     [] None ''authorId'' (Some ''data.score'') None None
     \<lparr>page = 1, nbResultsPerPage = 1\<rparr> \<lparr>orderBy = JStr ''count'', order = JStr ''desc''\<rparr>
   = Inr \<lparr>page = 1, nbResultsPerPage = 1, nbResults = JStr ''1'', nbPages = JNum 1,
          results = [[(''count'', JNum 3), (''avg'', JNum (246 / 100)),
                      (''groupBy'', JStr ''authorId''), (''groupByValue'', JStr ''usr_1''),
                      (''sum'', JNull), (''min'', JNull), (''max'', JNull)]]\<rparr>"
  using aggregation_rows_operators
    [of "\<lparr>parseArrayValues = (\<lambda>v. Inr v),
          run = (\<lambda>q. if last q = QCount then Inr [[(''count'', JStr ''1'')]]
                     else Inr [[(''groupByField'', JStr ''usr_1''), (''count'', JStr ''3''),
                                (''avg'', JNum (2456 / 1000))]])\<rparr>"
        "[]" None "''authorId''" "Some ''data.score''" None None
        "\<lparr>page = 1, nbResultsPerPage = 1\<rparr>" "\<lparr>orderBy = JStr ''count'', order = JStr ''desc''\<rparr>"]
  by (simp add: performAggregationQuery_def checkOrderConfig_def checkPaginationConfig_def
      aggregationsQuery_def getSqlExpression_def getPaginationMeta_def formatRow_def
      defaultOperator_def obj_delete_def isUndefined_def str_to_number_def trim_def
      is_blank_def digit_val_def round_def floor_eq_iff Let_def)








text \<open>
  C9. On the continuous-aggregate path (the order configuration, the filters and the
  pagination configuration are valid, the filter keys and the secondary filter's name
  are plain property names, the time filter has an entry, no filter beyond the time and
  secondary filters has a defined value, \<open>groupBy\<close> is a valid unit and a view exists for
  it) the caller's filter mapping is not left as it was: after the call the entry of the
  time filter has \<open>dbField\<close> equal to \<open>groupBy\<close>, with \<open>minValue\<close>, \<open>transformValue\<close> and
  \<open>query\<close> as before; its value objects may have been given a \<open>gte\<close>. The keys are
  unchanged, and so are the entries other than those of the time and the secondary
  filter. This holds whether the call then returns or throws.
\<close>

theorem continuous_aggregate_writes_dbField:
  assumes "checkOrderConfig oc = None" and "checkFilters filters = None"
    and "list_all plainKey (map fst filters)"
    and "case secondaryFilter of None \<Rightarrow> True | Some s \<Rightarrow> plainKey s"
    and "map_of filters (case timeFilterOpt of None \<Rightarrow> ''createdDate'' | Some s \<Rightarrow> s) = Some flt"
    and "\<forall>k f. map_of filters k = Some f
           \<and> k \<noteq> (case timeFilterOpt of None \<Rightarrow> ''createdDate'' | Some s \<Rightarrow> s)
           \<and> Some k \<noteq> secondaryFilter \<longrightarrow> isUndefined (rawValue f)"
    and "checkPaginationConfig pc = None"
    and "groupBy \<in> set [''hour'', ''day'', ''month'']"
    and "truthy (obj_get (case groupByViewsOpt of None \<Rightarrow> [] | Some v \<Rightarrow> v) groupBy)"
  shows "\<exists>filters' flt'.
           snd (performHistoryQuery e qb schema table timeFilterOpt timeColumnOpt secondaryFilter
                  groupByViewsOpt retentionLimitDate groupBy (Some filters) pc oc) = Some filters'
         \<and> map fst filters' = map fst filters
         \<and> map_of filters' (case timeFilterOpt of None \<Rightarrow> ''createdDate'' | Some s \<Rightarrow> s)
             = Some flt'
         \<and> dbField flt' = JStr groupBy \<and> minValue flt' = minValue flt
         \<and> transformValue flt' = transformValue flt \<and> query flt' = query flt
         \<and> (\<forall>k. k \<noteq> (case timeFilterOpt of None \<Rightarrow> ''createdDate'' | Some s \<Rightarrow> s)
                \<and> k \<noteq> (case secondaryFilter of None \<Rightarrow> ''undefined'' | Some s \<Rightarrow> s)
                \<longrightarrow> map_of filters' k = map_of filters k)"
proof -
  let ?tf = "case timeFilterOpt of None \<Rightarrow> ''createdDate'' | Some s \<Rightarrow> s"
  have u: "useOnlyNonTimeRestrictedFilters ?tf secondaryFilter filters"
  proof (rule ccontr)
    assume "\<not> useOnlyNonTimeRestrictedFilters ?tf secondaryFilter filters"
    then have "\<exists>k f. map_of filters k = Some f \<and> k \<noteq> ?tf \<and> Some k \<noteq> secondaryFilter
                 \<and> \<not> isUndefined (rawValue f)"
      unfolding not_useOnly_iff [OF assms(2,3)] .
    with assms(6) show False by blast
  qed
  have g: "(case Some filters of None \<Rightarrow> Inr True
            | Some filters \<Rightarrow> retentionGuard ?tf secondaryFilter retentionLimitDate filters)
           = Inr True"
    using assms(2,5) u by (simp add: retentionGuard_cases)
  show ?thesis
    unfolding perform_snd_history [OF assms(1) g assms(7,8)]
    by (rule historyQuery_aggregate_filters [OF TrueI assms(9,5)])
qed

theorem continuous_aggregate_writes_dbField_witness:
  "checkOrderConfig \<lparr>orderBy = JStr ''day'', order = JStr ''desc''\<rparr> = None
   \<and> checkFilters
        [(''createdDate'', rangeFilter ''createdDate'' (JObj [(''lt'', JStr ''2021-04-01'')])
                            (JStr ''2021-01-01'')),
         (''type'', equalityFilter ''type'' JUndefined)] = None
   \<and> list_all plainKey (map fst
        [(''createdDate'', rangeFilter ''createdDate'' (JObj [(''lt'', JStr ''2021-04-01'')])
                            (JStr ''2021-01-01'')),
         (''type'', equalityFilter ''type'' JUndefined)])
   \<and> isUndefined (rawValue (equalityFilter ''type'' JUndefined))
   \<and> checkPaginationConfig \<lparr>page = 1, nbResultsPerPage = 10\<rparr> = None
   \<and> truthy (obj_get [(''day'', JStr ''event_day'')] ''day'')
   \<and> snd (performHistoryQuery \<lparr>parseArrayValues = (\<lambda>v. Inr v), run = (\<lambda>q. Inr [])\<rparr> [] ''public'' ''event'' None None None
          (Some [(''day'', JStr ''event_day'')]) ''2020-01-01'' ''day''
          (Some [(''createdDate'', rangeFilter ''createdDate'' (JObj [(''lt'', JStr ''2021-04-01'')])
                                      (JStr ''2021-01-01'')),
                 (''type'', equalityFilter ''type'' JUndefined)]) \<lparr>page = 1, nbResultsPerPage = 10\<rparr> \<lparr>orderBy = JStr ''day'', order = JStr ''desc''\<rparr>)
      = Some [(''createdDate'',
               rangeFilter ''day'' (JObj [(''lt'', JStr ''2021-04-01''), (''gte'', JStr ''2021-01-01'')])
                 (JStr ''2021-01-01'')),
              (''type'', equalityFilter ''type'' JUndefined)]"
proof -
  let ?fs = "[(''createdDate'', rangeFilter ''createdDate'' (JObj [(''lt'', JStr ''2021-04-01'')])
                                  (JStr ''2021-01-01'')),
              (''type'', equalityFilter ''type'' JUndefined)]"
  have ev: ?thesis
    by (simp add: performHistoryQuery_def checkOrderConfig_def retentionGuard_def checkFilters_def
      validFilterSpec_def isUndefined_def useOnlyNonTimeRestrictedFilters_def
      timeRestrictedFilterKeys_def compact_def valueIsUndefined_def plainKey_def js_lt_def
      checkPaginationConfig_def historyQuery_def historyBase_def historySelect_def
      narrowFilters_def pick_def applyFilters_def applyFiltersShared_def writeBack_def
      writeBackSpec_def normalizedOrigin_def getTransformedValues_def
      transformedValue_def addFilter_def checkRangeFilter_def rangeWheres_def boundWhere_def
      getPaginationMeta_def js_slice_def name_or_undefined_def Let_def specRefs_def
      specStore_def deref_def)
  have h1: "checkOrderConfig \<lparr>orderBy = JStr ''day'', order = JStr ''desc''\<rparr> = None"
    and h2: "checkFilters ?fs = None"
    and h3: "list_all plainKey (map fst ?fs)"
    and h7: "checkPaginationConfig \<lparr>page = 1, nbResultsPerPage = 10\<rparr> = None"
    using ev by blast+
  have h4: "case None of None \<Rightarrow> True | Some s \<Rightarrow> plainKey s" by simp
  have h5: "map_of ?fs (case None of None \<Rightarrow> ''createdDate'' | Some s \<Rightarrow> s)
              = Some (rangeFilter ''createdDate'' (JObj [(''lt'', JStr ''2021-04-01'')])
                        (JStr ''2021-01-01''))"
    by simp
  have h6: "\<forall>k f. map_of ?fs k = Some f
           \<and> k \<noteq> (case None of None \<Rightarrow> ''createdDate'' | Some s \<Rightarrow> s)
           \<and> Some k \<noteq> None \<longrightarrow> isUndefined (rawValue f)"
    by (auto simp: isUndefined_def split: if_splits)
  have h8: "''day'' \<in> set [''hour'', ''day'', ''month'']" by simp
  have h9: "truthy (obj_get (case Some [(''day'', JStr ''event_day'')] of None \<Rightarrow> []
                              | Some v \<Rightarrow> v) ''day'')"
    by simp
  from continuous_aggregate_writes_dbField [OF h1 h2 h3 h4 h5 h6 h7 h8 h9] ev
  show ?thesis by blast
qed


text \<open>
  C10. A call of \<open>performHistoryQuery\<close> whose order configuration is valid and whose
  filters pass \<open>checkFilters\<close> (so the mapping is not empty), but hold no entry under the
  time filter's key (\<open>createdDate\<close> by default), throws the TypeError of reading
  \<open>.value\<close> of \<open>undefined\<close>, and leaves the filters as they were.
\<close>

theorem missing_time_filter_type_error:
  assumes "checkOrderConfig oc = None" and "checkFilters filters = None"
    and "map_of filters (case timeFilterOpt of None \<Rightarrow> ''createdDate'' | Some s \<Rightarrow> s) = None"
  shows "performHistoryQuery e qb schema table timeFilterOpt timeColumnOpt secondaryFilter
           groupByViewsOpt retentionLimitDate groupBy (Some filters) pc oc
         = (Inl (TypeError [Lit ''Cannot read property value of undefined'']), Some filters)"
proof -
  have "retentionGuard (case timeFilterOpt of None \<Rightarrow> ''createdDate'' | Some s \<Rightarrow> s)
          secondaryFilter retentionLimitDate filters
        = Inl (TypeError [Lit ''Cannot read property value of undefined''])"
    using assms(2,3) by (simp add: retentionGuard_cases)
  with assms(1) show ?thesis by (rule perform_guard_error)
qed

theorem missing_time_filter_type_error_witness:
  "checkOrderConfig \<lparr>orderBy = JStr ''day'', order = JStr ''desc''\<rparr> = None
   \<and> checkFilters [(''type'', equalityFilter ''type'' (JStr ''click''))] = None
   \<and> map_of [(''type'', equalityFilter ''type'' (JStr ''click''))] ''createdDate'' = None
   \<and> performHistoryQuery \<lparr>parseArrayValues = (\<lambda>v. Inr v), run = (\<lambda>q. Inr [])\<rparr> [] ''public'' ''event'' None None None None ''2020-01-01'' ''day''
        (Some [(''type'', equalityFilter ''type'' (JStr ''click''))]) \<lparr>page = 1, nbResultsPerPage = 10\<rparr> \<lparr>orderBy = JStr ''day'', order = JStr ''desc''\<rparr>
      = (Inl (TypeError [Lit ''Cannot read property value of undefined'']),
         Some [(''type'', equalityFilter ''type'' (JStr ''click''))])"
  using missing_time_filter_type_error
    [where oc = "\<lparr>orderBy = JStr ''day'', order = JStr ''desc''\<rparr>"
       and filters = "[(''type'', equalityFilter ''type'' (JStr ''click''))]"
       and timeFilterOpt = None and e = "\<lparr>parseArrayValues = (\<lambda>v. Inr v), run = (\<lambda>q. Inr [])\<rparr>" and qb = "[]" and schema = "''public''"
       and table = "''event''" and timeColumnOpt = None and secondaryFilter = None
       and groupByViewsOpt = None and retentionLimitDate = "''2020-01-01''"
       and groupBy = "''day''" and pc = "\<lparr>page = 1, nbResultsPerPage = 10\<rparr>"]
  by (simp add: checkOrderConfig_def checkFilters_def validFilterSpec_def isUndefined_def)

end
